theory Spec2Isabelle
  imports Complex_Main
begin

section \<open>Python values, errors and containers\<close>

text \<open>
  The module \<open>torchvision/models/video/resnext3d.py\<close> builds a tree of layer objects from
  integer hyperparameters and runs tensors through it. Every \<open>raise\<close>, failed
  \<open>assert\<close>, failed attribute lookup and out-of-range subscript of the Python source is
  a value of type \<open>error\<close>; a function that may raise returns \<open>error + 'a\<close>.
\<close>

datatype error =
    ValueError string
  | AssertionError
  | AttributeError string
  | IndexError
  | KeyError string
  | TypeError
  | RuntimeError string

fun bindE :: "error + 'a \<Rightarrow> ('a \<Rightarrow> error + 'b) \<Rightarrow> error + 'b" where
  "bindE (Inl e) f = Inl e"
| "bindE (Inr v) f = f v"

text \<open>\<open>xs[i]\<close> for an index \<open>i \<ge> 0\<close>: IndexError when out of range.\<close>

definition py_index :: "'a list \<Rightarrow> nat \<Rightarrow> error + 'a" where
  "py_index xs i = (if i < length xs then Inr (xs ! i) else Inl IndexError)"

text \<open>\<open>xs * n\<close> on a list: \<open>n\<close> copies, none when \<open>n \<le> 0\<close>.\<close>

definition py_repeat :: "'a list \<Rightarrow> int \<Rightarrow> 'a list" where
  "py_repeat xs n = concat (replicate (nat n) xs)"

text \<open>\<open>xs[:n]\<close>: the first \<open>n\<close> entries; a negative \<open>n\<close> counts from the end.\<close>

definition py_slice_to :: "'a list \<Rightarrow> int \<Rightarrow> 'a list" where
  "py_slice_to xs n = (if 0 \<le> n then take (nat n) xs else take (nat (int (length xs) + n)) xs)"

text \<open>\<open>range(n)\<close>.\<close>

definition py_range :: "int \<Rightarrow> nat list" where
  "py_range n = [0..<nat n]"

text \<open>\<open>"{}".format(n)\<close> for a natural number: its decimal digits.\<close>

definition digit_char :: "nat \<Rightarrow> char" where
  "digit_char d = ''0123456789'' ! d"

function str_of_nat :: "nat \<Rightarrow> string" where
  "str_of_nat n = (if n < 10 then [digit_char n] else str_of_nat (n div 10) @ [digit_char (n mod 10)])"
  by pat_completeness auto
termination
  by (relation "measure id") auto

declare str_of_nat.simps [simp del]

text \<open>
  A \<open>dict\<close> with string keys keeps insertion order; it is an association list with unique
  keys. \<open>d[k] = v\<close> replaces the value of an existing key in place and appends a new key;
  \<open>d[k]\<close> raises KeyError for a missing key.
\<close>

type_synonym 'v dict = "(string \<times> 'v) list"

fun dict_set :: "'v dict \<Rightarrow> string \<Rightarrow> 'v \<Rightarrow> 'v dict" where
  "dict_set [] k v = [(k, v)]"
| "dict_set ((k', v') # d) k v = (if k' = k then (k, v) # d else (k', v') # dict_set d k v)"

definition dict_get :: "'v dict \<Rightarrow> string \<Rightarrow> error + 'v" where
  "dict_get d k = (case map_of d k of None \<Rightarrow> Inl (KeyError k) | Some v \<Rightarrow> Inr v)"

text \<open>
  A \<open>for\<close> loop over a list of indices whose body updates an accumulator and a state and
  may raise: the loop stops at the first error and keeps the state reached by then.
\<close>

fun for_loop :: "'i list \<Rightarrow> ('i \<Rightarrow> 'acc \<Rightarrow> 's \<Rightarrow> (error + 'acc) \<times> 's) \<Rightarrow> 'acc \<Rightarrow> 's \<Rightarrow> (error + 'acc) \<times> 's" where
  "for_loop [] body acc s = (Inr acc, s)"
| "for_loop (i # is) body acc s =
     (case body i acc s of
        (Inl e, s') \<Rightarrow> (Inl e, s')
      | (Inr acc', s') \<Rightarrow> for_loop is body acc' s')"

section \<open>The layers of the tensor library\<close>

text \<open>
  Convolution, normalisation, pooling, dropout, the dense layer and softmax belong to the
  tensor library, not to this module. A layer object is the record of the arguments its
  constructor was given, together with how its parameters were last initialised and the
  \<open>final_transform_op\<close> attribute the module attaches to some of them (absent unless
  set). Kernel sizes, strides and paddings are triples (temporal, height, width); an integer
  argument such as \<open>kernel_size=1\<close> stands for the triple of equal entries. The library's
  own validation of constructor arguments is outside the model.
\<close>

datatype initializer =
    TorchDefault
  | ConstantInit real
  | KaimingNormalFanOutRelu
  | NormalInit real real

type_synonym triple = "int \<times> int \<times> int"

record Conv3d =
  conv_in_channels :: int
  conv_out_channels :: int
  conv_kernel_size :: triple
  conv_stride :: triple
  conv_padding :: triple
  conv_groups :: int
  conv_weight :: initializer
  conv_bias :: "initializer option"
  conv_final_transform_op :: "bool option"

record BatchNorm3d =
  bn_num_features :: int
  bn_epsilon :: real
  bn_momentum :: real
  bn_affine :: bool
  bn_weight :: initializer
  bn_bias :: initializer
  bn_final_transform_op :: "bool option"

record ReLU =
  relu_inplace :: bool

record MaxPool3d =
  maxpool_kernel_size :: triple
  maxpool_stride :: triple
  maxpool_padding :: triple

record AvgPool3d =
  avgpool_kernel_size :: triple
  avgpool_stride :: triple

record AdaptiveAvgPool3d =
  adaptive_output_size :: triple

record Dropout =
  dropout_p :: real

record Linear =
  linear_in_features :: int
  linear_out_features :: int
  linear_weight :: initializer
  linear_bias :: "initializer option"

record Softmax =
  softmax_dim :: int

text \<open>The constructors, with the library's defaults: fresh parameters, no extra attribute.\<close>

definition nn_Conv3d :: "int \<Rightarrow> int \<Rightarrow> triple \<Rightarrow> triple \<Rightarrow> triple \<Rightarrow> int \<Rightarrow> bool \<Rightarrow> Conv3d" where
  "nn_Conv3d in_channels out_channels kernel_size stride padding groups bias =
     \<lparr>conv_in_channels = in_channels, conv_out_channels = out_channels,
      conv_kernel_size = kernel_size, conv_stride = stride, conv_padding = padding,
      conv_groups = groups, conv_weight = TorchDefault,
      conv_bias = (if bias then Some TorchDefault else None),
      conv_final_transform_op = None\<rparr>"

definition nn_BatchNorm3d :: "int \<Rightarrow> real \<Rightarrow> real \<Rightarrow> BatchNorm3d" where
  "nn_BatchNorm3d num_features eps momentum =
     \<lparr>bn_num_features = num_features, bn_epsilon = eps, bn_momentum = momentum, bn_affine = True,
      bn_weight = TorchDefault, bn_bias = TorchDefault, bn_final_transform_op = None\<rparr>"

definition default_bn_eps :: real where
  "default_bn_eps = 1 / 100000"

definition default_bn_mmt :: real where
  "default_bn_mmt = 1 / 10"

definition nn_ReLU :: "bool \<Rightarrow> ReLU" where
  "nn_ReLU inplace = \<lparr>relu_inplace = inplace\<rparr>"

definition nn_Linear :: "int \<Rightarrow> int \<Rightarrow> bool \<Rightarrow> Linear" where
  "nn_Linear in_features out_features bias =
     \<lparr>linear_in_features = in_features, linear_out_features = out_features,
      linear_weight = TorchDefault,
      linear_bias = (if bias then Some TorchDefault else None)\<rparr>"

text \<open>
  An attribute that holds either a layer or \<open>nn.Identity()\<close>.
\<close>

datatype 'm or_identity = Layer 'm | Identity

text \<open>
  What the layers compute is a parameter of the model: a record of the library's forward
  functions over a tensor type \<open>'t\<close>. Each may raise (a channel or rank mismatch, a kernel
  larger than its input). Whether normalisation and dropout run in training or inference
  mode is the library's matter and lives inside these functions.
\<close>

record 't tensor_ops =
  t_conv3d :: "Conv3d \<Rightarrow> 't \<Rightarrow> error + 't"
  t_batch_norm :: "BatchNorm3d \<Rightarrow> 't \<Rightarrow> error + 't"
  t_relu :: "ReLU \<Rightarrow> 't \<Rightarrow> error + 't"
  t_max_pool3d :: "MaxPool3d \<Rightarrow> 't \<Rightarrow> error + 't"
  t_avg_pool3d :: "AvgPool3d \<Rightarrow> 't \<Rightarrow> error + 't"
  t_adaptive_avg_pool3d :: "AdaptiveAvgPool3d \<Rightarrow> 't \<Rightarrow> error + 't"
  t_dropout :: "Dropout \<Rightarrow> 't \<Rightarrow> error + 't"
  t_linear :: "Linear \<Rightarrow> 't \<Rightarrow> error + 't"
  t_softmax :: "Softmax \<Rightarrow> 't \<Rightarrow> error + 't"
  t_permute :: "nat list \<Rightarrow> 't \<Rightarrow> error + 't"
  t_mean :: "nat list \<Rightarrow> 't \<Rightarrow> error + 't"
  t_flatten :: "nat \<Rightarrow> 't \<Rightarrow> error + 't"
  t_add :: "'t \<Rightarrow> 't \<Rightarrow> error + 't"

definition forward_or_identity :: "('m \<Rightarrow> 't \<Rightarrow> error + 't) \<Rightarrow> 'm or_identity \<Rightarrow> 't \<Rightarrow> error + 't" where
  "forward_or_identity f m x = (case m of Layer l \<Rightarrow> f l x | Identity \<Rightarrow> Inr x)"

section \<open>Residual transformations\<close>

record PostactivatedBottleneckTransformation =
  post_branch2a :: Conv3d
  post_branch2a_bn :: BatchNorm3d
  post_branch2a_relu :: ReLU
  post_branch2b :: Conv3d
  post_branch2b_bn :: BatchNorm3d
  post_branch2b_relu :: ReLU
  post_branch2c :: Conv3d
  post_branch2c_bn :: BatchNorm3d

definition PostactivatedBottleneckTransformation_init ::
  "int \<Rightarrow> int \<Rightarrow> int \<Rightarrow> int \<Rightarrow> int \<Rightarrow> int \<Rightarrow> int \<Rightarrow> bool \<Rightarrow> bool \<Rightarrow> bool \<Rightarrow> real \<Rightarrow> real
   \<Rightarrow> PostactivatedBottleneckTransformation" where
  "PostactivatedBottleneckTransformation_init dim_in dim_out temporal_stride spatial_stride
     num_groups dim_inner temporal_kernel_size temporal_conv_1x1 spatial_stride_1x1
     inplace_relu bn_eps bn_mmt =
    (let (temporal_kernel_size_1x1, temporal_kernel_size_3x3) =
           (if temporal_conv_1x1 then (temporal_kernel_size, 1) else (1, temporal_kernel_size));
         (str1x1, str3x3) =
           (if spatial_stride_1x1 then (spatial_stride, 1) else (1, spatial_stride))
     in \<lparr>post_branch2a =
            nn_Conv3d dim_in dim_inner (temporal_kernel_size_1x1, 1, 1) (1, str1x1, str1x1)
              (temporal_kernel_size_1x1 div 2, 0, 0) 1 False,
          post_branch2a_bn = nn_BatchNorm3d dim_inner bn_eps bn_mmt,
          post_branch2a_relu = nn_ReLU inplace_relu,
          post_branch2b =
            nn_Conv3d dim_inner dim_inner (temporal_kernel_size_3x3, 3, 3)
              (temporal_stride, str3x3, str3x3) (temporal_kernel_size_3x3 div 2, 1, 1)
              num_groups False,
          post_branch2b_bn = nn_BatchNorm3d dim_inner bn_eps bn_mmt,
          post_branch2b_relu = nn_ReLU inplace_relu,
          post_branch2c = nn_Conv3d dim_inner dim_out (1, 1, 1) (1, 1, 1) (0, 0, 0) 1 False,
          post_branch2c_bn =
            (nn_BatchNorm3d dim_out bn_eps bn_mmt)\<lparr>bn_final_transform_op := Some True\<rparr>\<rparr>)"

definition PostactivatedBottleneckTransformation_forward ::
  "'t tensor_ops \<Rightarrow> PostactivatedBottleneckTransformation \<Rightarrow> 't \<Rightarrow> error + 't" where
  "PostactivatedBottleneckTransformation_forward ops m x =
     bindE (t_conv3d ops (post_branch2a m) x) (\<lambda>x.
     bindE (t_batch_norm ops (post_branch2a_bn m) x) (\<lambda>x.
     bindE (t_relu ops (post_branch2a_relu m) x) (\<lambda>x.
     bindE (t_conv3d ops (post_branch2b m) x) (\<lambda>x.
     bindE (t_batch_norm ops (post_branch2b_bn m) x) (\<lambda>x.
     bindE (t_relu ops (post_branch2b_relu m) x) (\<lambda>x.
     bindE (t_conv3d ops (post_branch2c m) x) (\<lambda>x.
     t_batch_norm ops (post_branch2c_bn m) x)))))))"

record PreactivatedBottleneckTransformation =
  pre_disable_pre_activation :: bool
  pre_branch2a_bn :: "BatchNorm3d or_identity"
  pre_branch2a_relu :: "ReLU or_identity"
  pre_branch2a :: Conv3d
  pre_branch2b_bn :: BatchNorm3d
  pre_branch2b_relu :: ReLU
  pre_branch2b :: Conv3d
  pre_branch2c_bn :: BatchNorm3d
  pre_branch2c_relu :: ReLU
  pre_branch2c :: Conv3d

definition PreactivatedBottleneckTransformation_init ::
  "int \<Rightarrow> int \<Rightarrow> int \<Rightarrow> int \<Rightarrow> int \<Rightarrow> int \<Rightarrow> int \<Rightarrow> bool \<Rightarrow> bool \<Rightarrow> bool \<Rightarrow> real \<Rightarrow> real \<Rightarrow> bool
   \<Rightarrow> PreactivatedBottleneckTransformation" where
  "PreactivatedBottleneckTransformation_init dim_in dim_out temporal_stride spatial_stride
     num_groups dim_inner temporal_kernel_size temporal_conv_1x1 spatial_stride_1x1
     inplace_relu bn_eps bn_mmt disable_pre_activation =
    (let (temporal_kernel_size_1x1, temporal_kernel_size_3x3) =
           (if temporal_conv_1x1 then (temporal_kernel_size, 1) else (1, temporal_kernel_size));
         (str1x1, str3x3) =
           (if spatial_stride_1x1 then (spatial_stride, 1) else (1, spatial_stride))
     in \<lparr>pre_disable_pre_activation = disable_pre_activation,
          pre_branch2a_bn =
            (if \<not> disable_pre_activation then Layer (nn_BatchNorm3d dim_in bn_eps bn_mmt)
             else Identity),
          pre_branch2a_relu =
            (if \<not> disable_pre_activation then Layer (nn_ReLU inplace_relu) else Identity),
          pre_branch2a =
            nn_Conv3d dim_in dim_inner (temporal_kernel_size_1x1, 1, 1) (1, str1x1, str1x1)
              (temporal_kernel_size_1x1 div 2, 0, 0) 1 False,
          pre_branch2b_bn = nn_BatchNorm3d dim_inner bn_eps bn_mmt,
          pre_branch2b_relu = nn_ReLU inplace_relu,
          pre_branch2b =
            nn_Conv3d dim_inner dim_inner (temporal_kernel_size_3x3, 3, 3)
              (temporal_stride, str3x3, str3x3) (temporal_kernel_size_3x3 div 2, 1, 1)
              num_groups False,
          pre_branch2c_bn = nn_BatchNorm3d dim_inner bn_eps bn_mmt,
          pre_branch2c_relu = nn_ReLU inplace_relu,
          pre_branch2c =
            (nn_Conv3d dim_inner dim_out (1, 1, 1) (1, 1, 1) (0, 0, 0) 1 False)
              \<lparr>conv_final_transform_op := Some True\<rparr>\<rparr>)"

definition PreactivatedBottleneckTransformation_forward ::
  "'t tensor_ops \<Rightarrow> PreactivatedBottleneckTransformation \<Rightarrow> 't \<Rightarrow> error + 't" where
  "PreactivatedBottleneckTransformation_forward ops m x =
     bindE (forward_or_identity (t_batch_norm ops) (pre_branch2a_bn m) x) (\<lambda>x.
     bindE (forward_or_identity (t_relu ops) (pre_branch2a_relu m) x) (\<lambda>x.
     bindE (t_conv3d ops (pre_branch2a m) x) (\<lambda>x.
     bindE (t_batch_norm ops (pre_branch2b_bn m) x) (\<lambda>x.
     bindE (t_relu ops (pre_branch2b_relu m) x) (\<lambda>x.
     bindE (t_conv3d ops (pre_branch2b m) x) (\<lambda>x.
     bindE (t_batch_norm ops (pre_branch2c_bn m) x) (\<lambda>x.
     bindE (t_relu ops (pre_branch2c_relu m) x) (\<lambda>x.
     t_conv3d ops (pre_branch2c m) x))))))))"

section \<open>Skip transformations\<close>

record PostactivatedShortcutTransformation =
  psc_branch1 :: Conv3d
  psc_branch1_bn :: BatchNorm3d

definition PostactivatedShortcutTransformation_init ::
  "int \<Rightarrow> int \<Rightarrow> int \<Rightarrow> int \<Rightarrow> real \<Rightarrow> real \<Rightarrow> error + PostactivatedShortcutTransformation" where
  "PostactivatedShortcutTransformation_init dim_in dim_out temporal_stride spatial_stride
     bn_eps bn_mmt =
    (if \<not> (dim_in \<noteq> dim_out \<or> spatial_stride \<noteq> 1 \<or> temporal_stride \<noteq> 1)
     then Inl AssertionError
     else Inr \<lparr>psc_branch1 =
                 nn_Conv3d dim_in dim_out (1, 1, 1)
                   (temporal_stride, spatial_stride, spatial_stride) (0, 0, 0) 1 False,
               psc_branch1_bn = nn_BatchNorm3d dim_out bn_eps bn_mmt\<rparr>)"

definition PostactivatedShortcutTransformation_forward ::
  "'t tensor_ops \<Rightarrow> PostactivatedShortcutTransformation \<Rightarrow> 't \<Rightarrow> error + 't" where
  "PostactivatedShortcutTransformation_forward ops m x =
     bindE (t_conv3d ops (psc_branch1 m) x) (t_batch_norm ops (psc_branch1_bn m))"

text \<open>
  The pre-activated shortcut sets \<open>branch1_bn\<close> and \<open>branch1_relu\<close> only when
  pre-activation is enabled (its \<open>forward\<close> asks \<open>hasattr\<close>), and it records its
  stride in an attribute of its own.
\<close>

record PreactivatedShortcutTransformation =
  prsc_branch1_bn :: "BatchNorm3d option"
  prsc_branch1_relu :: "ReLU option"
  prsc_branch1 :: Conv3d
  prsc_stride :: "int list"

definition PreactivatedShortcutTransformation_init ::
  "int \<Rightarrow> int \<Rightarrow> int \<Rightarrow> int \<Rightarrow> bool \<Rightarrow> real \<Rightarrow> real \<Rightarrow> bool
   \<Rightarrow> error + PreactivatedShortcutTransformation" where
  "PreactivatedShortcutTransformation_init dim_in dim_out temporal_stride spatial_stride
     inplace_relu bn_eps bn_mmt disable_pre_activation =
    (if \<not> (dim_in \<noteq> dim_out \<or> spatial_stride \<noteq> 1 \<or> temporal_stride \<noteq> 1)
     then Inl AssertionError
     else Inr \<lparr>prsc_branch1_bn =
                 (if \<not> disable_pre_activation then Some (nn_BatchNorm3d dim_in bn_eps bn_mmt)
                  else None),
               prsc_branch1_relu =
                 (if \<not> disable_pre_activation then Some (nn_ReLU inplace_relu) else None),
               prsc_branch1 =
                 nn_Conv3d dim_in dim_out (1, 1, 1)
                   (temporal_stride, spatial_stride, spatial_stride) (0, 0, 0) 1 False,
               prsc_stride = [temporal_stride, spatial_stride, spatial_stride]\<rparr>)"

definition PreactivatedShortcutTransformation_forward ::
  "'t tensor_ops \<Rightarrow> PreactivatedShortcutTransformation \<Rightarrow> 't \<Rightarrow> error + 't" where
  "PreactivatedShortcutTransformation_forward ops m x =
     bindE (case (prsc_branch1_bn m, prsc_branch1_relu m) of
              (Some bn, Some relu) \<Rightarrow> bindE (t_batch_norm ops bn x) (t_relu ops relu)
            | _ \<Rightarrow> Inr x)
       (t_conv3d ops (prsc_branch1 m))"

section \<open>Transformation strategies as callables\<close>

text \<open>
  \<open>ResBlock\<close>, \<open>ResStage\<close> and \<open>ResNeXt3D\<close> receive the skip and the residual
  transformation as callables; the factories pass the classes themselves. A callable is a
  class object or an instance of a class. Calling a class runs its constructor; calling a
  module instance runs its \<open>forward\<close>, which takes one tensor and so rejects the
  constructor's argument list with a TypeError. \<open>isinstance(obj, cls)\<close> holds for an
  instance of \<open>cls\<close>; a class object is an instance of \<open>type\<close>, never of a module
  class. The four transformation classes derive from \<open>nn.Module\<close> only, none from
  another.
\<close>

datatype skip_class =
    PostactivatedShortcutTransformation_class
  | PreactivatedShortcutTransformation_class

datatype residual_class =
    PostactivatedBottleneckTransformation_class
  | PreactivatedBottleneckTransformation_class

datatype 'c callable = Class 'c | Instance 'c

fun isinstance :: "'c callable \<Rightarrow> 'c \<Rightarrow> bool" where
  "isinstance (Class c) cls = False"
| "isinstance (Instance c) cls = (c = cls)"

datatype skip_module =
    SkipIdentity
  | SkipPostactivated PostactivatedShortcutTransformation
  | SkipPreactivated PreactivatedShortcutTransformation

datatype residual_module =
    ResidualPostactivated PostactivatedBottleneckTransformation
  | ResidualPreactivated PreactivatedBottleneckTransformation

text \<open>
  The call \<open>skip_transformation(dim_in, dim_out, temporal_stride, spatial_stride,
  bn_eps=, bn_mmt=, disable_pre_activation=)\<close> of \<open>ResBlock.__init__\<close>. The post-activated
  class swallows \<open>disable_pre_activation\<close> in its \<open>**kwargs\<close>; \<open>inplace_relu\<close> keeps its
  default.
\<close>

fun call_skip_transformation ::
  "skip_class callable \<Rightarrow> int \<Rightarrow> int \<Rightarrow> int \<Rightarrow> int \<Rightarrow> real \<Rightarrow> real \<Rightarrow> bool \<Rightarrow> error + skip_module" where
  "call_skip_transformation (Class PostactivatedShortcutTransformation_class)
     dim_in dim_out temporal_stride spatial_stride eps mmt disable_pre_activation =
     bindE (PostactivatedShortcutTransformation_init dim_in dim_out temporal_stride
              spatial_stride eps mmt)
       (\<lambda>m. Inr (SkipPostactivated m))"
| "call_skip_transformation (Class PreactivatedShortcutTransformation_class)
     dim_in dim_out temporal_stride spatial_stride eps mmt disable_pre_activation =
     bindE (PreactivatedShortcutTransformation_init dim_in dim_out temporal_stride
              spatial_stride True eps mmt disable_pre_activation)
       (\<lambda>m. Inr (SkipPreactivated m))"
| "call_skip_transformation (Instance c)
     dim_in dim_out temporal_stride spatial_stride eps mmt disable_pre_activation =
     Inl TypeError"

text \<open>
  The call \<open>residual_transformation(dim_in, dim_out, temporal_stride, spatial_stride,
  num_groups, dim_inner, temporal_kernel_size=, temporal_conv_1x1=,
  disable_pre_activation=)\<close>; the other parameters keep their defaults.
\<close>

fun call_residual_transformation ::
  "residual_class callable \<Rightarrow> int \<Rightarrow> int \<Rightarrow> int \<Rightarrow> int \<Rightarrow> int \<Rightarrow> int \<Rightarrow> int \<Rightarrow> bool \<Rightarrow> bool
   \<Rightarrow> error + residual_module" where
  "call_residual_transformation (Class PostactivatedBottleneckTransformation_class)
     dim_in dim_out temporal_stride spatial_stride num_groups dim_inner temporal_kernel_size
     temporal_conv_1x1 disable_pre_activation =
     Inr (ResidualPostactivated
       (PostactivatedBottleneckTransformation_init dim_in dim_out temporal_stride
          spatial_stride num_groups dim_inner temporal_kernel_size temporal_conv_1x1 False
          True default_bn_eps default_bn_mmt))"
| "call_residual_transformation (Class PreactivatedBottleneckTransformation_class)
     dim_in dim_out temporal_stride spatial_stride num_groups dim_inner temporal_kernel_size
     temporal_conv_1x1 disable_pre_activation =
     Inr (ResidualPreactivated
       (PreactivatedBottleneckTransformation_init dim_in dim_out temporal_stride
          spatial_stride num_groups dim_inner temporal_kernel_size temporal_conv_1x1 False
          True default_bn_eps default_bn_mmt disable_pre_activation))"
| "call_residual_transformation (Instance c)
     dim_in dim_out temporal_stride spatial_stride num_groups dim_inner temporal_kernel_size
     temporal_conv_1x1 disable_pre_activation =
     Inl TypeError"

section \<open>ResBlock\<close>

record ResBlock_args =
  ba_dim_in :: int
  ba_dim_out :: int
  ba_dim_inner :: int
  ba_temporal_kernel_size :: int
  ba_temporal_conv_1x1 :: bool
  ba_temporal_stride :: int
  ba_spatial_stride :: int
  ba_skip_transformation :: "skip_class callable"
  ba_residual_transformation :: "residual_class callable"
  ba_num_groups :: int
  ba_inplace_relu :: bool
  ba_bn_eps :: real
  ba_bn_mmt :: real
  ba_disable_pre_activation :: bool

record ResBlock =
  rb_skip :: skip_module
  rb_residual :: residual_module
  rb_relu :: ReLU

definition ResBlock_init :: "ResBlock_args \<Rightarrow> error + ResBlock" where
  "ResBlock_init a =
     bindE (if ba_dim_in a \<noteq> ba_dim_out a \<or> ba_spatial_stride a \<noteq> 1 \<or> ba_temporal_stride a \<noteq> 1
            then call_skip_transformation (ba_skip_transformation a) (ba_dim_in a)
                   (ba_dim_out a) (ba_temporal_stride a) (ba_spatial_stride a) (ba_bn_eps a)
                   (ba_bn_mmt a) (ba_disable_pre_activation a)
            else Inr SkipIdentity) (\<lambda>skip.
     bindE (call_residual_transformation (ba_residual_transformation a) (ba_dim_in a)
              (ba_dim_out a) (ba_temporal_stride a) (ba_spatial_stride a) (ba_num_groups a)
              (ba_dim_inner a) (ba_temporal_kernel_size a) (ba_temporal_conv_1x1 a)
              (ba_disable_pre_activation a)) (\<lambda>residual.
     Inr \<lparr>rb_skip = skip, rb_residual = residual, rb_relu = nn_ReLU (ba_inplace_relu a)\<rparr>))"

fun skip_forward :: "'t tensor_ops \<Rightarrow> skip_module \<Rightarrow> 't \<Rightarrow> error + 't" where
  "skip_forward ops SkipIdentity x = Inr x"
| "skip_forward ops (SkipPostactivated m) x = PostactivatedShortcutTransformation_forward ops m x"
| "skip_forward ops (SkipPreactivated m) x = PreactivatedShortcutTransformation_forward ops m x"

fun residual_forward :: "'t tensor_ops \<Rightarrow> residual_module \<Rightarrow> 't \<Rightarrow> error + 't" where
  "residual_forward ops (ResidualPostactivated m) x =
     PostactivatedBottleneckTransformation_forward ops m x"
| "residual_forward ops (ResidualPreactivated m) x =
     PreactivatedBottleneckTransformation_forward ops m x"

text \<open>
  The attribute lookup \<open>self.skip.stride\<close> of \<open>ResBlock.forward\<close>: only the
  pre-activated shortcut sets such an attribute.
\<close>

fun skip_stride :: "skip_module \<Rightarrow> error + int list" where
  "skip_stride (SkipPreactivated m) = Inr (prsc_stride m)"
| "skip_stride (SkipPostactivated m) = Inl (AttributeError ''stride'')"
| "skip_stride SkipIdentity = Inl (AttributeError ''stride'')"

text \<open>
  \<open>ResBlock.forward\<close>. What the four \<open>print\<close> calls write is not part of the model;
  the lookup of \<open>self.skip.stride\<close> that the first one makes is, since it can raise.
\<close>

definition ResBlock_forward :: "'t tensor_ops \<Rightarrow> ResBlock \<Rightarrow> 't \<Rightarrow> error + 't" where
  "ResBlock_forward ops blk x =
     bindE (skip_forward ops (rb_skip blk) x) (\<lambda>skip_out.
     bindE (residual_forward ops (rb_residual blk) x) (\<lambda>residual_out.
     bindE (if rb_skip blk \<noteq> SkipIdentity then skip_stride (rb_skip blk) else Inr []) (\<lambda>_.
     bindE (t_add ops skip_out residual_out) (\<lambda>x.
     t_relu ops (rb_relu blk) x))))"

section \<open>ResStage\<close>

text \<open>
  Building a stage allocates sub-modules. The constructors that the error-handling rules
  speak of thread a log of the module objects they have allocated so far, oldest first.
\<close>

type_synonym alloc_log = "string list"

datatype sequential_item =
    SeqResBlock ResBlock
  | SeqBatchNorm3d BatchNorm3d
  | SeqReLU ReLU

type_synonym Sequential = "sequential_item list"

record ResStage_args =
  sa_stage_idx :: int
  sa_dim_in :: "int list"
  sa_dim_out :: "int list"
  sa_dim_inner :: "int list"
  sa_temporal_kernel_basis :: "int list list"
  sa_temporal_conv_1x1 :: "bool list"
  sa_temporal_stride :: "int list"
  sa_spatial_stride :: "int list"
  sa_num_blocks :: "int list"
  sa_num_groups :: "int list"
  sa_skip_transformation :: "skip_class callable"
  sa_residual_transformation :: "residual_class callable"
  sa_inplace_relu :: bool
  sa_bn_eps :: real
  sa_bn_mmt :: real
  sa_disable_pre_activation :: bool
  sa_final_stage :: bool

record ResStage =
  rs_stage_idx :: int
  rs_num_blocks :: "int list"
  rs_num_pathways :: nat
  rs_temporal_kernel_sizes :: "int list list"
  rs_pathways :: "Sequential dict"

definition pathway_name :: "nat \<Rightarrow> string" where
  "pathway_name pathway_idx = ''pathway'' @ str_of_nat pathway_idx"

definition ResStage_length_error :: error where
  "ResStage_length_error = ValueError ''The following arguments should have equal legth: dim_in, dim_out, temporal_kernel_basis, temporal_conv_1x1, temporal_stride, spatial_stride, num_blocks, dim_inner, num_groups''"

text \<open>
  The set of the nine lengths, as the source builds it: a list without duplicates.
\<close>

definition ResStage_lengths :: "ResStage_args \<Rightarrow> nat list" where
  "ResStage_lengths a =
     remdups [length (sa_dim_in a), length (sa_dim_out a), length (sa_temporal_kernel_basis a),
              length (sa_temporal_conv_1x1 a), length (sa_temporal_stride a),
              length (sa_spatial_stride a), length (sa_num_blocks a), length (sa_dim_inner a),
              length (sa_num_groups a)]"

text \<open>
  \<open>[(temporal_kernel_basis[i] * num_blocks[i])[: num_blocks[i]] for i in
  range(len(temporal_kernel_basis))]\<close>. It runs after the length check, so \<open>num_blocks[i]\<close>
  is in range.
\<close>

definition temporal_kernel_sizes :: "int list list \<Rightarrow> int list \<Rightarrow> int list list" where
  "temporal_kernel_sizes temporal_kernel_basis num_blocks =
     map (\<lambda>i. py_slice_to (py_repeat (temporal_kernel_basis ! i) (num_blocks ! i)) (num_blocks ! i))
       [0..<length temporal_kernel_basis]"

text \<open>
  The body of the inner loop: block \<open>i\<close> of pathway \<open>p\<close>. Subscripts by \<open>p\<close> are
  in range after the length check; \<open>temporal_kernel_sizes[p][i]\<close> need not be.
\<close>

definition ResStage_block ::
  "ResStage_args \<Rightarrow> int list list \<Rightarrow> nat \<Rightarrow> nat \<Rightarrow> Sequential \<Rightarrow> alloc_log
   \<Rightarrow> (error + Sequential) \<times> alloc_log" where
  "ResStage_block a sizes p i blocks al =
     (let block_disable_pre_activation = (if sa_disable_pre_activation a \<and> i = 0 then True else False)
      in case py_index (sizes ! p) i of
           Inl e \<Rightarrow> (Inl e, al)
         | Inr temporal_kernel_size \<Rightarrow>
             (case ResBlock_init
                     \<lparr>ba_dim_in = (if i = 0 then sa_dim_in a ! p else sa_dim_out a ! p),
                      ba_dim_out = sa_dim_out a ! p,
                      ba_dim_inner = sa_dim_inner a ! p,
                      ba_temporal_kernel_size = temporal_kernel_size,
                      ba_temporal_conv_1x1 = sa_temporal_conv_1x1 a ! p,
                      ba_temporal_stride = (if i = 0 then sa_temporal_stride a ! p else 1),
                      ba_spatial_stride = (if i = 0 then sa_spatial_stride a ! p else 1),
                      ba_skip_transformation = sa_skip_transformation a,
                      ba_residual_transformation = sa_residual_transformation a,
                      ba_num_groups = sa_num_groups a ! p,
                      ba_inplace_relu = sa_inplace_relu a,
                      ba_bn_eps = sa_bn_eps a,
                      ba_bn_mmt = sa_bn_mmt a,
                      ba_disable_pre_activation = block_disable_pre_activation\<rparr> of
                Inl e \<Rightarrow> (Inl e, al @ [''ResBlock''])
              | Inr res_block \<Rightarrow> (Inr (blocks @ [SeqResBlock res_block]), al @ [''ResBlock''])))"

text \<open>The body of the outer loop: pathway \<open>p\<close>.\<close>

definition ResStage_pathway ::
  "ResStage_args \<Rightarrow> int list list \<Rightarrow> nat \<Rightarrow> Sequential dict \<Rightarrow> alloc_log
   \<Rightarrow> (error + Sequential dict) \<times> alloc_log" where
  "ResStage_pathway a sizes p pathways al =
     (case for_loop (py_range (sa_num_blocks a ! p)) (ResStage_block a sizes p) [] al of
        (Inl e, al') \<Rightarrow> (Inl e, al')
      | (Inr blocks, al') \<Rightarrow>
          (if sa_final_stage a \<and>
              isinstance (sa_residual_transformation a) PreactivatedBottleneckTransformation_class
           then (Inr (dict_set pathways (pathway_name p)
                        (blocks @ [SeqBatchNorm3d (nn_BatchNorm3d (sa_dim_out a ! p)
                                                     default_bn_eps default_bn_mmt),
                                   SeqReLU (nn_ReLU True)])),
                 al' @ [''BatchNorm3d'', ''ReLU'', ''Sequential''])
           else (Inr (dict_set pathways (pathway_name p) blocks), al' @ [''Sequential''])))"

definition ResStage_init :: "ResStage_args \<Rightarrow> alloc_log \<Rightarrow> (error + ResStage) \<times> alloc_log" where
  "ResStage_init a al =
     (if length (ResStage_lengths a) \<noteq> 1 then (Inl ResStage_length_error, al)
      else
        let num_pathways = length (sa_num_blocks a);
            sizes = temporal_kernel_sizes (sa_temporal_kernel_basis a) (sa_num_blocks a)
        in case for_loop [0..<num_pathways] (ResStage_pathway a sizes) [] al of
             (Inl e, al') \<Rightarrow> (Inl e, al')
           | (Inr pathways, al') \<Rightarrow>
               (Inr \<lparr>rs_stage_idx = sa_stage_idx a,
                     rs_num_blocks = sa_num_blocks a,
                     rs_num_pathways = num_pathways,
                     rs_temporal_kernel_sizes = sizes,
                     rs_pathways = pathways\<rparr>, al'))"

fun sequential_item_forward :: "'t tensor_ops \<Rightarrow> sequential_item \<Rightarrow> 't \<Rightarrow> error + 't" where
  "sequential_item_forward ops (SeqResBlock b) x = ResBlock_forward ops b x"
| "sequential_item_forward ops (SeqBatchNorm3d b) x = t_batch_norm ops b x"
| "sequential_item_forward ops (SeqReLU r) x = t_relu ops r x"

fun Sequential_forward :: "'t tensor_ops \<Rightarrow> Sequential \<Rightarrow> 't \<Rightarrow> error + 't" where
  "Sequential_forward ops [] x = Inr x"
| "Sequential_forward ops (m # ms) x =
     (case sequential_item_forward ops m x of
        Inl e \<Rightarrow> Inl e
      | Inr y \<Rightarrow> Sequential_forward ops ms y)"

text \<open>\<open>ResStage.forward\<close>: the loop appends to a fresh list and touches no other object.\<close>

fun ResStage_forward_loop ::
  "'t tensor_ops \<Rightarrow> ResStage \<Rightarrow> 't list \<Rightarrow> nat list \<Rightarrow> 't list \<Rightarrow> error + 't list" where
  "ResStage_forward_loop ops st inputs [] output = Inr output"
| "ResStage_forward_loop ops st inputs (p # ps) output =
     (case py_index inputs p of
        Inl e \<Rightarrow> Inl e
      | Inr x \<Rightarrow>
          (case dict_get (rs_pathways st) (pathway_name p) of
             Inl e \<Rightarrow> Inl e
           | Inr pathway_module \<Rightarrow>
               (case Sequential_forward ops pathway_module x of
                  Inl e \<Rightarrow> Inl e
                | Inr y \<Rightarrow> ResStage_forward_loop ops st inputs ps (output @ [y]))))"

definition ResStage_forward :: "'t tensor_ops \<Rightarrow> ResStage \<Rightarrow> 't list \<Rightarrow> error + 't list" where
  "ResStage_forward ops st inputs =
     ResStage_forward_loop ops st inputs [0..<rs_num_pathways st] []"

section \<open>Stem\<close>

record ResNeXt3DStemSinglePathway =
  sp_kernel :: triple
  sp_stride :: triple
  sp_padding :: triple
  sp_inplace_relu :: bool
  sp_bn_eps :: real
  sp_bn_mmt :: real
  sp_maxpool :: bool
  sp_conv :: Conv3d
  sp_bn :: BatchNorm3d
  sp_relu :: ReLU
  sp_pool_layer :: "MaxPool3d option"

definition ResNeXt3DStemSinglePathway_init ::
  "int \<Rightarrow> int \<Rightarrow> triple \<Rightarrow> triple \<Rightarrow> triple \<Rightarrow> bool \<Rightarrow> bool \<Rightarrow> real \<Rightarrow> real
   \<Rightarrow> ResNeXt3DStemSinglePathway" where
  "ResNeXt3DStemSinglePathway_init dim_in dim_out kern stride padding maxpool inplace_relu
     eps mmt =
     \<lparr>sp_kernel = kern, sp_stride = stride, sp_padding = padding,
      sp_inplace_relu = inplace_relu, sp_bn_eps = eps, sp_bn_mmt = mmt, sp_maxpool = maxpool,
      sp_conv = nn_Conv3d dim_in dim_out kern stride padding 1 False,
      sp_bn = nn_BatchNorm3d dim_out eps mmt,
      sp_relu = nn_ReLU inplace_relu,
      sp_pool_layer =
        (if maxpool
         then Some \<lparr>maxpool_kernel_size = (1, 3, 3), maxpool_stride = (1, 2, 2),
                     maxpool_padding = (0, 1, 1)\<rparr>
         else None)\<rparr>"

definition ResNeXt3DStemSinglePathway_forward ::
  "'t tensor_ops \<Rightarrow> ResNeXt3DStemSinglePathway \<Rightarrow> 't \<Rightarrow> error + 't" where
  "ResNeXt3DStemSinglePathway_forward ops m x =
     bindE (t_conv3d ops (sp_conv m) x) (\<lambda>x.
     bindE (t_batch_norm ops (sp_bn m) x) (\<lambda>x.
     bindE (t_relu ops (sp_relu m) x) (\<lambda>x.
     if sp_maxpool m
     then (case sp_pool_layer m of
             None \<Rightarrow> Inl (AttributeError ''pool_layer'')
           | Some pool_layer \<Rightarrow> t_max_pool3d ops pool_layer x)
     else Inr x)))"

record ResNeXt3DStemMultiPathway_args =
  ma_dim_in :: "int list"
  ma_dim_out :: "int list"
  ma_kernel :: "triple list"
  ma_stride :: "triple list"
  ma_padding :: "triple list"
  ma_inplace_relu :: bool
  ma_bn_eps :: real
  ma_bn_mmt :: real

record ResNeXt3DStemMultiPathway =
  mp_num_pathways :: nat
  mp_kernel :: "triple list"
  mp_stride :: "triple list"
  mp_padding :: "triple list"
  mp_inplace_relu :: bool
  mp_bn_eps :: real
  mp_bn_mmt :: real
  mp_blocks :: "ResNeXt3DStemSinglePathway dict"

definition stem_name :: "nat \<Rightarrow> string" where
  "stem_name path_idx = ''stem-path'' @ str_of_nat path_idx"

definition ResNeXt3DStemMultiPathway_length_error :: error where
  "ResNeXt3DStemMultiPathway_length_error = ValueError ''The following arguments should have equal legth: dim_in, dim_out, kernel, stride''"

text \<open>
  The body of the constructor's loop: the stem of pathway \<open>p\<close>, with \<open>maxpool\<close> at its
  default. Subscripts by \<open>p\<close> are in range after the length check.
\<close>

definition ResNeXt3DStemMultiPathway_stem ::
  "ResNeXt3DStemMultiPathway_args \<Rightarrow> nat \<Rightarrow> ResNeXt3DStemSinglePathway dict \<Rightarrow> alloc_log
   \<Rightarrow> (error + ResNeXt3DStemSinglePathway dict) \<times> alloc_log" where
  "ResNeXt3DStemMultiPathway_stem a p blocks al =
     (let stem = ResNeXt3DStemSinglePathway_init (ma_dim_in a ! p) (ma_dim_out a ! p)
                   (ma_kernel a ! p) (ma_stride a ! p) (ma_padding a ! p) True
                   (ma_inplace_relu a) (ma_bn_eps a) (ma_bn_mmt a)
      in (Inr (dict_set blocks (stem_name p) stem), al @ [''ResNeXt3DStemSinglePathway'']))"

definition ResNeXt3DStemMultiPathway_init ::
  "ResNeXt3DStemMultiPathway_args \<Rightarrow> alloc_log
   \<Rightarrow> (error + ResNeXt3DStemMultiPathway) \<times> alloc_log" where
  "ResNeXt3DStemMultiPathway_init a al =
     (if length (ma_dim_in a) \<noteq> length (ma_dim_out a)
         \<or> length (ma_dim_in a) \<noteq> length (ma_kernel a)
         \<or> length (ma_dim_in a) \<noteq> length (ma_stride a)
         \<or> length (ma_dim_in a) \<noteq> length (ma_padding a)
      then (Inl ResNeXt3DStemMultiPathway_length_error, al)
      else
        case for_loop [0..<length (ma_dim_in a)] (ResNeXt3DStemMultiPathway_stem a) [] al of
          (Inl e, al') \<Rightarrow> (Inl e, al')
        | (Inr blocks, al') \<Rightarrow>
            (Inr \<lparr>mp_num_pathways = length (ma_dim_in a),
                  mp_kernel = ma_kernel a, mp_stride = ma_stride a, mp_padding = ma_padding a,
                  mp_inplace_relu = ma_inplace_relu a, mp_bn_eps = ma_bn_eps a,
                  mp_bn_mmt = ma_bn_mmt a, mp_blocks = blocks\<rparr>, al'))"

text \<open>
  \<open>ResNeXt3DStemMultiPathway.forward\<close> assigns to the entries of the list it is given.
  Lists of tensors are objects in a store, addressed by number; the function takes the
  address of its argument and returns an address together with the store it leaves. A
  reference always points to an object in Python; the model answers an address without
  an object by an error of its own. Tensors themselves are values: no layer of this module
  writes into the tensor it is given.
\<close>

type_synonym 't store = "nat \<Rightarrow> 't list option"

definition ResNeXt3DStemMultiPathway_forward_step ::
  "'t tensor_ops \<Rightarrow> ResNeXt3DStemMultiPathway \<Rightarrow> nat \<Rightarrow> nat \<Rightarrow> unit \<Rightarrow> 't store
   \<Rightarrow> (error + unit) \<times> 't store" where
  "ResNeXt3DStemMultiPathway_forward_step ops m x p u st =
     (case st x of
        None \<Rightarrow> (Inl (RuntimeError ''no object at this address''), st)
      | Some xs \<Rightarrow>
          (case bindE (dict_get (mp_blocks m) (stem_name p)) (\<lambda>stem_block.
                bindE (py_index xs p) (\<lambda>x_p.
                ResNeXt3DStemSinglePathway_forward ops stem_block x_p)) of
             Inl e \<Rightarrow> (Inl e, st)
           | Inr y \<Rightarrow> (Inr (), st(x \<mapsto> xs[p := y]))))"

definition ResNeXt3DStemMultiPathway_forward ::
  "'t tensor_ops \<Rightarrow> ResNeXt3DStemMultiPathway \<Rightarrow> nat \<Rightarrow> 't store \<Rightarrow> (error + nat) \<times> 't store" where
  "ResNeXt3DStemMultiPathway_forward ops m x st =
     (case st x of
        None \<Rightarrow> (Inl (RuntimeError ''no object at this address''), st)
      | Some xs \<Rightarrow>
          (case for_loop [0..<length xs] (ResNeXt3DStemMultiPathway_forward_step ops m x) () st of
             (Inl e, st') \<Rightarrow> (Inl e, st')
           | (Inr u, st') \<Rightarrow> (Inr x, st')))"

record ResNeXt3DStem =
  stem_stem :: ResNeXt3DStemMultiPathway

text \<open>
  \<open>ResNeXt3DStem\<close> does not hand its \<open>maxpool\<close> argument on.
\<close>

definition ResNeXt3DStem_init ::
  "int \<Rightarrow> int \<Rightarrow> int \<Rightarrow> int \<Rightarrow> bool \<Rightarrow> alloc_log \<Rightarrow> (error + ResNeXt3DStem) \<times> alloc_log" where
  "ResNeXt3DStem_init temporal_kernel spatial_kernel input_planes stem_planes maxpool al =
     (case ResNeXt3DStemMultiPathway_init
             \<lparr>ma_dim_in = [input_planes],
              ma_dim_out = [stem_planes],
              ma_kernel = [(temporal_kernel, spatial_kernel, spatial_kernel)],
              ma_stride = [(1, 2, 2)],
              ma_padding = [(temporal_kernel div 2, spatial_kernel div 2, spatial_kernel div 2)],
              ma_inplace_relu = True, ma_bn_eps = default_bn_eps, ma_bn_mmt = default_bn_mmt\<rparr>
             al of
        (Inl e, al') \<Rightarrow> (Inl e, al')
      | (Inr m, al') \<Rightarrow> (Inr \<lparr>stem_stem = m\<rparr>, al'))"

definition ResNeXt3DStem_forward ::
  "'t tensor_ops \<Rightarrow> ResNeXt3DStem \<Rightarrow> nat \<Rightarrow> 't store \<Rightarrow> (error + nat) \<times> 't store" where
  "ResNeXt3DStem_forward ops m x st = ResNeXt3DStemMultiPathway_forward ops (stem_stem m) x st"

section \<open>Head\<close>

text \<open>
  \<open>FullyConvolutionalLinear.forward\<close> reads the module's \<open>training\<close> flag, which every
  module has and which is set at construction.
\<close>

record FullyConvolutionalLinear =
  fcl_projection :: Linear
  fcl_act :: Softmax
  fcl_training :: bool

definition FullyConvolutionalLinear_init :: "int \<Rightarrow> int \<Rightarrow> FullyConvolutionalLinear" where
  "FullyConvolutionalLinear_init dim_in num_classes =
     \<lparr>fcl_projection = nn_Linear dim_in num_classes True,
      fcl_act = \<lparr>softmax_dim = 4\<rparr>,
      fcl_training = True\<rparr>"

definition FullyConvolutionalLinear_forward ::
  "'t tensor_ops \<Rightarrow> FullyConvolutionalLinear \<Rightarrow> 't \<Rightarrow> error + 't" where
  "FullyConvolutionalLinear_forward ops m x =
     bindE (t_permute ops [0, 2, 3, 4, 1] x) (\<lambda>x.
     bindE (t_linear ops (fcl_projection m) x) (\<lambda>x.
     bindE (if \<not> fcl_training m
            then bindE (t_softmax ops (fcl_act m) x) (t_mean ops [1, 2, 3])
            else Inr x) (\<lambda>x.
     t_flatten ops 1 x)))"

datatype final_avgpool =
    FinalAvgPool3d AvgPool3d
  | FinalAdaptiveAvgPool3d AdaptiveAvgPool3d

record FullyConvolutionalLinearHead =
  head_final_avgpool :: final_avgpool
  head_dropout :: "Dropout option"
  head_head_fcl :: FullyConvolutionalLinear

definition FullyConvolutionalLinearHead_init ::
  "int \<Rightarrow> int \<Rightarrow> triple option \<Rightarrow> bool option \<Rightarrow> real \<Rightarrow> FullyConvolutionalLinearHead" where
  "FullyConvolutionalLinearHead_init num_classes in_plane pool_size use_dropout dropout_ratio =
     \<lparr>head_final_avgpool =
        (case pool_size of
           Some ks \<Rightarrow> FinalAvgPool3d \<lparr>avgpool_kernel_size = ks, avgpool_stride = (1, 1, 1)\<rparr>
         | None \<Rightarrow> FinalAdaptiveAvgPool3d \<lparr>adaptive_output_size = (1, 1, 1)\<rparr>),
      head_dropout = (if use_dropout = Some True then Some \<lparr>dropout_p = dropout_ratio\<rparr> else None),
      head_head_fcl = FullyConvolutionalLinear_init in_plane num_classes\<rparr>"

fun final_avgpool_forward :: "'t tensor_ops \<Rightarrow> final_avgpool \<Rightarrow> 't \<Rightarrow> error + 't" where
  "final_avgpool_forward ops (FinalAvgPool3d m) x = t_avg_pool3d ops m x"
| "final_avgpool_forward ops (FinalAdaptiveAvgPool3d m) x = t_adaptive_avg_pool3d ops m x"

definition FullyConvolutionalLinearHead_forward ::
  "'t tensor_ops \<Rightarrow> FullyConvolutionalLinearHead \<Rightarrow> 't \<Rightarrow> error + 't" where
  "FullyConvolutionalLinearHead_forward ops m x =
     bindE (final_avgpool_forward ops (head_final_avgpool m) x) (\<lambda>out.
     bindE (case head_dropout m of
              Some dropout \<Rightarrow> t_dropout ops dropout out
            | None \<Rightarrow> Inr out) (\<lambda>out.
     FullyConvolutionalLinear_forward ops (head_head_fcl m) out))"

section \<open>Parameter initialisation\<close>

text \<open>
  \<open>_init_parameter\<close> visits every module registered under the model at the moment it
  is called and sets the parameters of the convolutions, the affine normalisation layers
  and the dense layers among them. The first three functions are the three branches of its
  loop body; the others carry them over the module tree.
\<close>

definition init_parameter_Conv3d :: "bool \<Rightarrow> Conv3d \<Rightarrow> Conv3d" where
  "init_parameter_Conv3d zero_init_residual_transform m =
     (let m = (if conv_final_transform_op m = Some True \<and> zero_init_residual_transform
               then m\<lparr>conv_weight := ConstantInit 0\<rparr>
               else m\<lparr>conv_weight := KaimingNormalFanOutRelu\<rparr>)
      in if conv_bias m \<noteq> None then m\<lparr>conv_bias := Some (ConstantInit 0)\<rparr> else m)"

definition init_parameter_BatchNorm3d :: "bool \<Rightarrow> BatchNorm3d \<Rightarrow> BatchNorm3d" where
  "init_parameter_BatchNorm3d zero_init_residual_transform m =
     (if bn_affine m
      then let batchnorm_weight =
                 (if bn_final_transform_op m = Some True \<and> zero_init_residual_transform
                  then 0 else 1)
           in m\<lparr>bn_weight := ConstantInit batchnorm_weight, bn_bias := ConstantInit 0\<rparr>
      else m)"

definition init_parameter_Linear :: "Linear \<Rightarrow> Linear" where
  "init_parameter_Linear m =
     m\<lparr>linear_weight := NormalInit 0 (1 / 100), linear_bias := Some (ConstantInit 0)\<rparr>"

fun init_parameter_or_identity :: "('m \<Rightarrow> 'm) \<Rightarrow> 'm or_identity \<Rightarrow> 'm or_identity" where
  "init_parameter_or_identity f (Layer l) = Layer (f l)"
| "init_parameter_or_identity f Identity = Identity"

definition init_parameter_PostactivatedBottleneckTransformation ::
  "bool \<Rightarrow> PostactivatedBottleneckTransformation \<Rightarrow> PostactivatedBottleneckTransformation" where
  "init_parameter_PostactivatedBottleneckTransformation z m =
     m\<lparr>post_branch2a := init_parameter_Conv3d z (post_branch2a m),
       post_branch2a_bn := init_parameter_BatchNorm3d z (post_branch2a_bn m),
       post_branch2b := init_parameter_Conv3d z (post_branch2b m),
       post_branch2b_bn := init_parameter_BatchNorm3d z (post_branch2b_bn m),
       post_branch2c := init_parameter_Conv3d z (post_branch2c m),
       post_branch2c_bn := init_parameter_BatchNorm3d z (post_branch2c_bn m)\<rparr>"

definition init_parameter_PreactivatedBottleneckTransformation ::
  "bool \<Rightarrow> PreactivatedBottleneckTransformation \<Rightarrow> PreactivatedBottleneckTransformation" where
  "init_parameter_PreactivatedBottleneckTransformation z m =
     m\<lparr>pre_branch2a_bn := init_parameter_or_identity (init_parameter_BatchNorm3d z) (pre_branch2a_bn m),
       pre_branch2a := init_parameter_Conv3d z (pre_branch2a m),
       pre_branch2b_bn := init_parameter_BatchNorm3d z (pre_branch2b_bn m),
       pre_branch2b := init_parameter_Conv3d z (pre_branch2b m),
       pre_branch2c_bn := init_parameter_BatchNorm3d z (pre_branch2c_bn m),
       pre_branch2c := init_parameter_Conv3d z (pre_branch2c m)\<rparr>"

fun init_parameter_residual :: "bool \<Rightarrow> residual_module \<Rightarrow> residual_module" where
  "init_parameter_residual z (ResidualPostactivated m) =
     ResidualPostactivated (init_parameter_PostactivatedBottleneckTransformation z m)"
| "init_parameter_residual z (ResidualPreactivated m) =
     ResidualPreactivated (init_parameter_PreactivatedBottleneckTransformation z m)"

fun init_parameter_skip :: "bool \<Rightarrow> skip_module \<Rightarrow> skip_module" where
  "init_parameter_skip z SkipIdentity = SkipIdentity"
| "init_parameter_skip z (SkipPostactivated m) =
     SkipPostactivated
       (m\<lparr>psc_branch1 := init_parameter_Conv3d z (psc_branch1 m),
          psc_branch1_bn := init_parameter_BatchNorm3d z (psc_branch1_bn m)\<rparr>)"
| "init_parameter_skip z (SkipPreactivated m) =
     SkipPreactivated
       (m\<lparr>prsc_branch1_bn := map_option (init_parameter_BatchNorm3d z) (prsc_branch1_bn m),
          prsc_branch1 := init_parameter_Conv3d z (prsc_branch1 m)\<rparr>)"

fun init_parameter_item :: "bool \<Rightarrow> sequential_item \<Rightarrow> sequential_item" where
  "init_parameter_item z (SeqResBlock b) =
     SeqResBlock (b\<lparr>rb_skip := init_parameter_skip z (rb_skip b),
                    rb_residual := init_parameter_residual z (rb_residual b)\<rparr>)"
| "init_parameter_item z (SeqBatchNorm3d b) = SeqBatchNorm3d (init_parameter_BatchNorm3d z b)"
| "init_parameter_item z (SeqReLU r) = SeqReLU r"

definition init_parameter_ResStage :: "bool \<Rightarrow> ResStage \<Rightarrow> ResStage" where
  "init_parameter_ResStage z st =
     st\<lparr>rs_pathways := map (\<lambda>(name, pathway). (name, map (init_parameter_item z) pathway))
                          (rs_pathways st)\<rparr>"

definition init_parameter_ResNeXt3DStemSinglePathway ::
  "bool \<Rightarrow> ResNeXt3DStemSinglePathway \<Rightarrow> ResNeXt3DStemSinglePathway" where
  "init_parameter_ResNeXt3DStemSinglePathway z m =
     m\<lparr>sp_conv := init_parameter_Conv3d z (sp_conv m),
       sp_bn := init_parameter_BatchNorm3d z (sp_bn m)\<rparr>"

definition init_parameter_ResNeXt3DStem :: "bool \<Rightarrow> ResNeXt3DStem \<Rightarrow> ResNeXt3DStem" where
  "init_parameter_ResNeXt3DStem z m =
     m\<lparr>stem_stem :=
         (stem_stem m)\<lparr>mp_blocks :=
           map (\<lambda>(name, stem). (name, init_parameter_ResNeXt3DStemSinglePathway z stem))
             (mp_blocks (stem_stem m))\<rparr>\<rparr>"

definition init_parameter_FullyConvolutionalLinearHead ::
  "FullyConvolutionalLinearHead \<Rightarrow> FullyConvolutionalLinearHead" where
  "init_parameter_FullyConvolutionalLinearHead m =
     m\<lparr>head_head_fcl :=
         (head_head_fcl m)\<lparr>fcl_projection :=
           init_parameter_Linear (fcl_projection (head_head_fcl m))\<rparr>\<rparr>"

section \<open>The model\<close>

text \<open>
  The \<open>stem\<close> argument is a callable that builds the stem; it is a function here. The
  \<open>head\<close> attribute exists once the constructor has assigned it. The call of
  \<open>_log_api_usage_once\<close>, which reports the use of the class and touches nothing of the
  model, is left out.
\<close>

record ResNeXt3D =
  m_input_planes :: int
  m_clip_crop_size :: int
  m_frames_per_clip :: int
  m_num_blocks :: "int list"
  m_stem :: ResNeXt3DStem
  m_stages :: "ResStage list"
  m_head :: "FullyConvolutionalLinearHead option"

record ResNeXt3D_args =
  hp_input_planes :: int
  hp_clip_crop_size :: int
  hp_skip_transformation :: "skip_class callable"
  hp_residual_transformation :: "residual_class callable"
  hp_frames_per_clip :: int
  hp_num_blocks :: "int list"
  hp_stem :: "int \<Rightarrow> int \<Rightarrow> int \<Rightarrow> int \<Rightarrow> bool \<Rightarrow> alloc_log \<Rightarrow> (error + ResNeXt3DStem) \<times> alloc_log"
  hp_stem_planes :: int
  hp_stem_temporal_kernel :: int
  hp_stem_spatial_kernel :: int
  hp_stem_maxpool :: bool
  hp_stage_planes :: int
  hp_stage_temporal_kernel_basis :: "int list list"
  hp_temporal_conv_1x1 :: "bool list"
  hp_stage_temporal_stride :: "int list"
  hp_stage_spatial_stride :: "int list"
  hp_num_groups :: int
  hp_width_per_group :: int
  hp_zero_init_residual_transform :: bool
  hp_head_pool_size :: "triple option"
  hp_num_classes :: int

definition ResNeXt3D_init_parameter :: "bool \<Rightarrow> ResNeXt3D \<Rightarrow> ResNeXt3D" where
  "ResNeXt3D_init_parameter zero_init_residual_transform self =
     self\<lparr>m_stem := init_parameter_ResNeXt3DStem zero_init_residual_transform (m_stem self),
          m_stages := map (init_parameter_ResStage zero_init_residual_transform) (m_stages self),
          m_head := map_option init_parameter_FullyConvolutionalLinearHead (m_head self)\<rparr>"

text \<open>
  The arguments of the \<open>ResStage\<close> call for stage \<open>s\<close>; each subscript may raise
  IndexError.
\<close>

definition ResNeXt3D_stage_args ::
  "ResNeXt3D_args \<Rightarrow> int list \<Rightarrow> int list \<Rightarrow> int list \<Rightarrow> nat \<Rightarrow> nat \<Rightarrow> error + ResStage_args" where
  "ResNeXt3D_stage_args hp in_planes out_planes inner_planes num_stages s =
     bindE (py_index in_planes s) (\<lambda>in_planes_s.
     bindE (py_index out_planes s) (\<lambda>out_planes_s.
     bindE (py_index inner_planes s) (\<lambda>inner_planes_s.
     bindE (py_index (hp_stage_temporal_kernel_basis hp) s) (\<lambda>basis_s.
     bindE (py_index (hp_temporal_conv_1x1 hp) s) (\<lambda>temporal_conv_1x1_s.
     bindE (py_index (hp_stage_temporal_stride hp) s) (\<lambda>temporal_stride_s.
     bindE (py_index (hp_stage_spatial_stride hp) s) (\<lambda>spatial_stride_s.
     bindE (py_index (hp_num_blocks hp) s) (\<lambda>num_blocks_s.
     Inr \<lparr>sa_stage_idx = int s + 1,
          sa_dim_in = [in_planes_s],
          sa_dim_out = [out_planes_s],
          sa_dim_inner = [inner_planes_s],
          sa_temporal_kernel_basis = [basis_s],
          sa_temporal_conv_1x1 = [temporal_conv_1x1_s],
          sa_temporal_stride = [temporal_stride_s],
          sa_spatial_stride = [spatial_stride_s],
          sa_num_blocks = [num_blocks_s],
          sa_num_groups = [hp_num_groups hp],
          sa_skip_transformation = hp_skip_transformation hp,
          sa_residual_transformation = hp_residual_transformation hp,
          sa_inplace_relu = True,
          sa_bn_eps = default_bn_eps,
          sa_bn_mmt = default_bn_mmt,
          sa_disable_pre_activation = (s = 0),
          sa_final_stage = (int s = int num_stages - 1)\<rparr>))))))))"

definition ResNeXt3D_stage ::
  "ResNeXt3D_args \<Rightarrow> int list \<Rightarrow> int list \<Rightarrow> int list \<Rightarrow> nat \<Rightarrow> nat \<Rightarrow> ResStage list \<Rightarrow> alloc_log
   \<Rightarrow> (error + ResStage list) \<times> alloc_log" where
  "ResNeXt3D_stage hp in_planes out_planes inner_planes num_stages s stages al =
     (case ResNeXt3D_stage_args hp in_planes out_planes inner_planes num_stages s of
        Inl e \<Rightarrow> (Inl e, al)
      | Inr a \<Rightarrow>
          (case ResStage_init a al of
             (Inl e, al') \<Rightarrow> (Inl e, al')
           | (Inr stage, al') \<Rightarrow> (Inr (stages @ [stage]), al')))"

text \<open>
  \<open>ResNeXt3D.__init__\<close>, in the order of its statements: stem, stages,
  \<open>_init_parameter\<close>, head.
\<close>

definition ResNeXt3D_init :: "ResNeXt3D_args \<Rightarrow> alloc_log \<Rightarrow> (error + ResNeXt3D) \<times> alloc_log" where
  "ResNeXt3D_init hp al =
     (case hp_stem hp (hp_stem_temporal_kernel hp) (hp_stem_spatial_kernel hp)
             (hp_input_planes hp) (hp_stem_planes hp) (hp_stem_maxpool hp) al of
        (Inl e, al') \<Rightarrow> (Inl e, al')
      | (Inr stem, al') \<Rightarrow>
          (let num_stages = length (hp_num_blocks hp);
               out_planes = map (\<lambda>i. hp_stage_planes hp * 2 ^ i) [0..<num_stages];
               in_planes = [hp_stem_planes hp] @ py_slice_to out_planes (- 1);
               inner_planes = map (\<lambda>i. hp_num_groups hp * hp_width_per_group hp * 2 ^ i)
                                [0..<num_stages]
           in case for_loop [0..<num_stages]
                     (ResNeXt3D_stage hp in_planes out_planes inner_planes num_stages) [] al' of
                (Inl e, al'') \<Rightarrow> (Inl e, al'')
              | (Inr stages, al'') \<Rightarrow>
                  (let self = \<lparr>m_input_planes = hp_input_planes hp,
                               m_clip_crop_size = hp_clip_crop_size hp,
                               m_frames_per_clip = hp_frames_per_clip hp,
                               m_num_blocks = hp_num_blocks hp,
                               m_stem = stem,
                               m_stages = stages,
                               m_head = None\<rparr>;
                       self = ResNeXt3D_init_parameter (hp_zero_init_residual_transform hp) self;
                       self = self\<lparr>m_head :=
                                Some (FullyConvolutionalLinearHead_init (hp_num_classes hp) 2048
                                        (hp_head_pool_size hp) (Some True) (1 / 2))\<rparr>
                   in (Inr self, al''))))"

fun ResNeXt3D_forward_stages ::
  "'t tensor_ops \<Rightarrow> ResStage list \<Rightarrow> 't list \<Rightarrow> error + 't list" where
  "ResNeXt3D_forward_stages ops [] out = Inr out"
| "ResNeXt3D_forward_stages ops (stage # stages) out =
     (case ResStage_forward ops stage out of
        Inl e \<Rightarrow> Inl e
      | Inr out' \<Rightarrow> ResNeXt3D_forward_stages ops stages out')"

text \<open>
  \<open>ResNeXt3D.forward\<close>: the list \<open>[x]\<close> is a fresh object, the only one of the store
  the stem is run in.
\<close>

definition ResNeXt3D_forward :: "'t tensor_ops \<Rightarrow> ResNeXt3D \<Rightarrow> 't \<Rightarrow> error + 't" where
  "ResNeXt3D_forward ops self x =
     (case ResNeXt3DStem_forward ops (m_stem self) 0 (Map.empty(0 \<mapsto> [x])) of
        (Inl e, st) \<Rightarrow> Inl e
      | (Inr out_ref, st) \<Rightarrow>
          (case st out_ref of
             None \<Rightarrow> Inl (RuntimeError ''no object at this address'')
           | Some out \<Rightarrow>
               bindE (ResNeXt3D_forward_stages ops (m_stages self) out) (\<lambda>out.
               bindE (py_index out 0) (\<lambda>out_0.
               case m_head self of
                 None \<Rightarrow> Inl (AttributeError ''head'')
               | Some head \<Rightarrow> FullyConvolutionalLinearHead_forward ops head out_0))))"

section \<open>The two reference configurations\<close>

text \<open>
  The two factories, called without further keyword arguments. Their \<open>weights\<close> and
  \<open>progress\<close> parameters are not used by the source.
\<close>

definition resnext3d_preact_i3d50_args :: ResNeXt3D_args where
  "resnext3d_preact_i3d50_args =
     \<lparr>hp_input_planes = 3,
      hp_clip_crop_size = 224,
      hp_skip_transformation = Class PreactivatedShortcutTransformation_class,
      hp_residual_transformation = Class PreactivatedBottleneckTransformation_class,
      hp_frames_per_clip = 8,
      hp_num_blocks = [3, 4, 6, 3],
      hp_stem = ResNeXt3DStem_init,
      hp_stem_planes = 32,
      hp_stem_temporal_kernel = 3,
      hp_stem_spatial_kernel = 5,
      hp_stem_maxpool = True,
      hp_stage_planes = 256,
      hp_stage_temporal_kernel_basis = [[3], [3, 1], [3, 1], [1, 3]],
      hp_temporal_conv_1x1 = [True, True, True, True],
      hp_stage_temporal_stride = [1, 2, 1, 1],
      hp_stage_spatial_stride = [1, 2, 2, 2],
      hp_num_groups = 1,
      hp_width_per_group = 64,
      hp_zero_init_residual_transform = True,
      hp_head_pool_size = Some (4, 7, 7),
      hp_num_classes = 400\<rparr>"

definition resnext3d_preact_i3d50 :: "alloc_log \<Rightarrow> (error + ResNeXt3D) \<times> alloc_log" where
  "resnext3d_preact_i3d50 al = ResNeXt3D_init resnext3d_preact_i3d50_args al"

definition resnext3d_postact_i3d50_args :: ResNeXt3D_args where
  "resnext3d_postact_i3d50_args =
     \<lparr>hp_input_planes = 3,
      hp_clip_crop_size = 224,
      hp_skip_transformation = Class PostactivatedShortcutTransformation_class,
      hp_residual_transformation = Class PostactivatedBottleneckTransformation_class,
      hp_frames_per_clip = 8,
      hp_num_blocks = [3, 4, 6, 3],
      hp_stem = ResNeXt3DStem_init,
      hp_stem_planes = 64,
      hp_stem_temporal_kernel = 5,
      hp_stem_spatial_kernel = 7,
      hp_stem_maxpool = True,
      hp_stage_planes = 256,
      hp_stage_temporal_kernel_basis = [[3], [3, 1], [3, 1], [1, 3]],
      hp_temporal_conv_1x1 = [True, True, True, True],
      hp_stage_temporal_stride = [1, 1, 1, 1],
      hp_stage_spatial_stride = [1, 2, 2, 2],
      hp_num_groups = 1,
      hp_width_per_group = 64,
      hp_zero_init_residual_transform = True,
      hp_head_pool_size = Some (8, 7, 7),
      hp_num_classes = 400\<rparr>"

definition resnext3d_postact_i3d50 :: "alloc_log \<Rightarrow> (error + ResNeXt3D) \<times> alloc_log" where
  "resnext3d_postact_i3d50 al = ResNeXt3D_init resnext3d_postact_i3d50_args al"

section \<open>The layers on shapes\<close>

text \<open>
  One instance of the layer functions: a tensor is replaced by its shape, the list of its
  dimension sizes, and each layer by the rule the tensor library documents for the shape of
  its result. A window of size \<open>k\<close>, stride \<open>s\<close> and padding \<open>p\<close> maps \<open>n\<close> positions
  to \<open>(n + 2p - k) div s + 1\<close> and is rejected when the padded input is shorter than the
  window; convolution and normalisation want a five-dimensional input whose channel count
  is the layer's (an input without batch axis is not considered); the dense layer acts on
  the last axis; addition broadcasts.
\<close>

type_synonym shape = "int list"

definition window_out :: "int \<Rightarrow> int \<Rightarrow> int \<Rightarrow> int \<Rightarrow> int" where
  "window_out n k s p = (n + 2 * p - k) div s + 1"

definition window_ok :: "int \<Rightarrow> int \<Rightarrow> int \<Rightarrow> int \<Rightarrow> bool" where
  "window_ok n k s p = (0 < k \<and> 0 < s \<and> 0 \<le> p \<and> k \<le> n + 2 * p)"

fun shape_window :: "triple \<Rightarrow> triple \<Rightarrow> triple \<Rightarrow> int \<Rightarrow> int \<Rightarrow> shape \<Rightarrow> error + shape" where
  "shape_window (kd, kh, kw) (sd, sh, sw) (pd, ph, pw) c_in c_out [n, c, d, h, w] =
     (if c \<noteq> c_in then Inl (RuntimeError ''channel mismatch'')
      else if window_ok d kd sd pd \<and> window_ok h kh sh ph \<and> window_ok w kw sw pw
      then Inr [n, c_out, window_out d kd sd pd, window_out h kh sh ph, window_out w kw sw pw]
      else Inl (RuntimeError ''window larger than input''))"
| "shape_window k s p c_in c_out x = Inl (RuntimeError ''expected 5D input'')"

definition shape_conv3d :: "Conv3d \<Rightarrow> shape \<Rightarrow> error + shape" where
  "shape_conv3d m x =
     shape_window (conv_kernel_size m) (conv_stride m) (conv_padding m)
       (conv_in_channels m) (conv_out_channels m) x"

fun shape_batch_norm :: "BatchNorm3d \<Rightarrow> shape \<Rightarrow> error + shape" where
  "shape_batch_norm m [n, c, d, h, w] =
     (if c = bn_num_features m then Inr [n, c, d, h, w]
      else Inl (RuntimeError ''channel mismatch''))"
| "shape_batch_norm m x = Inl (ValueError ''expected 5D input'')"

fun shape_max_pool3d :: "MaxPool3d \<Rightarrow> shape \<Rightarrow> error + shape" where
  "shape_max_pool3d m [n, c, d, h, w] =
     shape_window (maxpool_kernel_size m) (maxpool_stride m) (maxpool_padding m) c c
       [n, c, d, h, w]"
| "shape_max_pool3d m x = Inl (RuntimeError ''expected 5D input'')"

fun shape_avg_pool3d :: "AvgPool3d \<Rightarrow> shape \<Rightarrow> error + shape" where
  "shape_avg_pool3d m [n, c, d, h, w] =
     shape_window (avgpool_kernel_size m) (avgpool_stride m) (0, 0, 0) c c [n, c, d, h, w]"
| "shape_avg_pool3d m x = Inl (RuntimeError ''expected 5D input'')"

fun shape_adaptive_avg_pool3d :: "AdaptiveAvgPool3d \<Rightarrow> shape \<Rightarrow> error + shape" where
  "shape_adaptive_avg_pool3d m [n, c, d, h, w] =
     (case adaptive_output_size m of (od, oh, ow) \<Rightarrow> Inr [n, c, od, oh, ow])"
| "shape_adaptive_avg_pool3d m x = Inl (RuntimeError ''expected 5D input'')"

definition shape_linear :: "Linear \<Rightarrow> shape \<Rightarrow> error + shape" where
  "shape_linear m x =
     (if x \<noteq> [] \<and> last x = linear_in_features m
      then Inr (butlast x @ [linear_out_features m])
      else Inl (RuntimeError ''shapes cannot be multiplied''))"

definition shape_softmax :: "Softmax \<Rightarrow> shape \<Rightarrow> error + shape" where
  "shape_softmax m x =
     (if - int (length x) \<le> softmax_dim m \<and> softmax_dim m < int (length x) then Inr x
      else Inl IndexError)"

definition shape_permute :: "nat list \<Rightarrow> shape \<Rightarrow> error + shape" where
  "shape_permute dims x =
     (if length dims = length x \<and> distinct dims \<and> list_all (\<lambda>i. i < length x) dims
      then Inr (map (\<lambda>i. x ! i) dims)
      else Inl (RuntimeError ''permute''))"

fun drop_dims :: "nat list \<Rightarrow> nat \<Rightarrow> shape \<Rightarrow> shape" where
  "drop_dims dims i [] = []"
| "drop_dims dims i (d # ds) =
     (if i \<in> set dims then drop_dims dims (Suc i) ds else d # drop_dims dims (Suc i) ds)"

definition shape_mean :: "nat list \<Rightarrow> shape \<Rightarrow> error + shape" where
  "shape_mean dims x =
     (if distinct dims \<and> list_all (\<lambda>i. i < length x) dims then Inr (drop_dims dims 0 x)
      else Inl IndexError)"

definition shape_flatten :: "nat \<Rightarrow> shape \<Rightarrow> error + shape" where
  "shape_flatten start_dim x =
     (if start_dim < length x then Inr (take start_dim x @ [prod_list (drop start_dim x)])
      else Inl IndexError)"

text \<open>Broadcasting, on the two shapes read from their last axis.\<close>

fun broadcast_rev :: "shape \<Rightarrow> shape \<Rightarrow> shape option" where
  "broadcast_rev [] ys = Some ys"
| "broadcast_rev (x # xs) [] = Some (x # xs)"
| "broadcast_rev (x # xs) (y # ys) =
     (if x = y \<or> y = 1 then map_option ((#) x) (broadcast_rev xs ys)
      else if x = 1 then map_option ((#) y) (broadcast_rev xs ys)
      else None)"

definition shape_add :: "shape \<Rightarrow> shape \<Rightarrow> error + shape" where
  "shape_add x y =
     (case broadcast_rev (rev x) (rev y) of
        None \<Rightarrow> Inl (RuntimeError ''shapes do not broadcast'')
      | Some z \<Rightarrow> Inr (rev z))"

definition shape_ops :: "shape tensor_ops" where
  "shape_ops =
     \<lparr>t_conv3d = shape_conv3d,
      t_batch_norm = shape_batch_norm,
      t_relu = (\<lambda>m x. Inr x),
      t_max_pool3d = shape_max_pool3d,
      t_avg_pool3d = shape_avg_pool3d,
      t_adaptive_avg_pool3d = shape_adaptive_avg_pool3d,
      t_dropout = (\<lambda>m x. Inr x),
      t_linear = shape_linear,
      t_softmax = shape_softmax,
      t_permute = shape_permute,
      t_mean = shape_mean,
      t_flatten = shape_flatten,
      t_add = shape_add\<rparr>"

section \<open>Training and inference mode\<close>

text \<open>
  \<open>model.train(mode)\<close> and \<open>model.eval()\<close> belong to the tensor library: they set the
  \<open>training\<close> flag of every module under the model. The one flag this file reads is
  that of the head's projection.
\<close>

definition ResNeXt3D_train :: "bool \<Rightarrow> ResNeXt3D \<Rightarrow> ResNeXt3D" where
  "ResNeXt3D_train mode self =
     self\<lparr>m_head :=
       map_option (\<lambda>head. head\<lparr>head_head_fcl := (head_head_fcl head)\<lparr>fcl_training := mode\<rparr>\<rparr>)
         (m_head self)\<rparr>"

section \<open>Shapes with a batch axis\<close>

text \<open>
  A five-dimensional shape whose first axis has size \<open>n\<close>, and the functions on shapes
  that keep such shapes so.
\<close>

definition batch5 :: "int \<Rightarrow> shape \<Rightarrow> bool" where
  "batch5 n x = (\<exists>c d h w. x = [n, c, d, h, w])"

definition keeps_batch :: "(shape \<Rightarrow> error + shape) \<Rightarrow> bool" where
  "keeps_batch f = (\<forall>n x y. f x = Inr y \<longrightarrow> batch5 n x \<longrightarrow> batch5 n y)"

section \<open>Concrete inputs\<close>

text \<open>
  A last stage under pre-activation, of the form \<open>ResNeXt3D\<close> passes to \<open>ResStage\<close>
  (one pathway, \<open>final_stage\<close> set, the classes as the strategies), here with the basis
  \<open>[3, 1]\<close> and five blocks.
\<close>

definition example_stage_args :: ResStage_args where
  "example_stage_args =
     \<lparr>sa_stage_idx = 4, sa_dim_in = [1024], sa_dim_out = [2048], sa_dim_inner = [512],
      sa_temporal_kernel_basis = [[3, 1]], sa_temporal_conv_1x1 = [True],
      sa_temporal_stride = [1], sa_spatial_stride = [2], sa_num_blocks = [5],
      sa_num_groups = [1],
      sa_skip_transformation = Class PreactivatedShortcutTransformation_class,
      sa_residual_transformation = Class PreactivatedBottleneckTransformation_class,
      sa_inplace_relu = True, sa_bn_eps = default_bn_eps, sa_bn_mmt = default_bn_mmt,
      sa_disable_pre_activation = False, sa_final_stage = True\<rparr>"

text \<open>
  The arguments of a block that keeps its channel count and its resolution, and those of a
  one-pathway stem.
\<close>

definition example_block_args :: ResBlock_args where
  "example_block_args =
     \<lparr>ba_dim_in = 256, ba_dim_out = 256, ba_dim_inner = 64, ba_temporal_kernel_size = 3,
      ba_temporal_conv_1x1 = True, ba_temporal_stride = 1, ba_spatial_stride = 1,
      ba_skip_transformation = Class PreactivatedShortcutTransformation_class,
      ba_residual_transformation = Class PreactivatedBottleneckTransformation_class,
      ba_num_groups = 1, ba_inplace_relu = True, ba_bn_eps = default_bn_eps,
      ba_bn_mmt = default_bn_mmt, ba_disable_pre_activation = False\<rparr>"

definition example_stem_args :: ResNeXt3DStemMultiPathway_args where
  "example_stem_args =
     \<lparr>ma_dim_in = [3], ma_dim_out = [32], ma_kernel = [(3, 5, 5)], ma_stride = [(1, 2, 2)],
      ma_padding = [(1, 2, 2)], ma_inplace_relu = True, ma_bn_eps = default_bn_eps,
      ma_bn_mmt = default_bn_mmt\<rparr>"

section \<open>Basic facts\<close>

lemma bindE_eq_Inr: "bindE r f = Inr y \<longleftrightarrow> (\<exists>v. r = Inr v \<and> f v = Inr y)"
  by (cases r) auto

lemma bindE_eq_Inl: "bindE r f = Inl e \<longleftrightarrow> (r = Inl e \<or> (\<exists>v. r = Inr v \<and> f v = Inl e))"
  by (cases r) auto

lemma str_of_nat_0: "str_of_nat 0 = ''0''"
  by (simp add: str_of_nat.simps digit_char_def)

lemma replicate_numeral: "replicate (numeral k) x = x # replicate (pred_numeral k) x"
  by (simp add: numeral_eq_Suc)

lemmas stage_defs =
  ResStage_init_def ResStage_lengths_def temporal_kernel_sizes_def ResStage_pathway_def
  ResStage_block_def py_range_def py_index_def py_slice_to_def py_repeat_def pathway_name_def
  str_of_nat_0 upt_conv_Cons replicate_numeral

lemmas block_defs =
  ResBlock_init_def PreactivatedShortcutTransformation_init_def
  PostactivatedShortcutTransformation_init_def
  PreactivatedBottleneckTransformation_init_def
  PostactivatedBottleneckTransformation_init_def

lemmas stem_defs =
  ResNeXt3DStem_init_def ResNeXt3DStemMultiPathway_init_def ResNeXt3DStemMultiPathway_stem_def
  ResNeXt3DStemSinglePathway_init_def stem_name_def

lemmas model_defs =
  ResNeXt3D_init_def ResNeXt3D_stage_def ResNeXt3D_stage_args_def
  ResNeXt3D_init_parameter_def init_parameter_ResNeXt3DStem_def
  init_parameter_ResNeXt3DStemSinglePathway_def init_parameter_ResStage_def
  init_parameter_PreactivatedBottleneckTransformation_def
  init_parameter_PostactivatedBottleneckTransformation_def
  init_parameter_Conv3d_def init_parameter_BatchNorm3d_def
  FullyConvolutionalLinearHead_init_def FullyConvolutionalLinear_init_def
  nn_Conv3d_def nn_BatchNorm3d_def nn_ReLU_def nn_Linear_def

lemmas forward_defs =
  ResNeXt3D_forward_def ResNeXt3DStem_forward_def ResNeXt3DStemMultiPathway_forward_def
  ResNeXt3DStemMultiPathway_forward_step_def dict_get_def
  ResNeXt3DStemSinglePathway_forward_def ResStage_forward_def ResBlock_forward_def
  PreactivatedBottleneckTransformation_forward_def
  PostactivatedBottleneckTransformation_forward_def
  PreactivatedShortcutTransformation_forward_def
  PostactivatedShortcutTransformation_forward_def
  forward_or_identity_def FullyConvolutionalLinearHead_forward_def
  FullyConvolutionalLinear_forward_def

lemmas shape_defs =
  shape_ops_def shape_conv3d_def window_ok_def window_out_def shape_linear_def
  shape_softmax_def shape_permute_def shape_mean_def shape_flatten_def shape_add_def

lemma example_stage_builds: "\<exists>st al'. ResStage_init example_stage_args [] = (Inr st, al')"
  by (simp add: example_stage_args_def stage_defs block_defs Let_def)

subsection \<open>Cycling a list\<close>

lemma nth_concat_replicate:
  "i < k * length xs \<Longrightarrow> concat (replicate k xs) ! i = xs ! (i mod length xs)"
proof (induction k arbitrary: i)
  case 0
  then show ?case by simp
next
  case (Suc k)
  show ?case
  proof (cases "i < length xs")
    case True
    then show ?thesis by (simp add: nth_append)
  next
    case False
    with Suc.prems have "i - length xs < k * length xs" by simp
    then have "concat (replicate k xs) ! (i - length xs) = xs ! ((i - length xs) mod length xs)"
      by (rule Suc.IH)
    with False show ?thesis by (simp add: nth_append le_mod_geq)
  qed
qed

lemma take_concat_replicate:
  assumes "n \<le> k * length xs" and "n \<le> j * length xs"
  shows "take n (concat (replicate k xs)) = take n (concat (replicate j xs))"
proof (rule nth_equalityI)
  show "length (take n (concat (replicate k xs))) = length (take n (concat (replicate j xs)))"
    using assms by (simp add: length_concat sum_list_replicate)
next
  fix i assume "i < length (take n (concat (replicate k xs)))"
  then have i: "i < n" by simp
  with assms have "i < k * length xs" "i < j * length xs" by auto
  then show "take n (concat (replicate k xs)) ! i = take n (concat (replicate j xs)) ! i"
    using i by (simp add: nth_concat_replicate)
qed

lemma py_cycle:
  assumes "nat n \<le> k * length basis"
  shows "py_slice_to (py_repeat basis n) n = take (nat n) (concat (replicate k basis))"
proof (cases "0 \<le> n \<and> basis \<noteq> []")
  case True
  then have "nat n \<le> nat n * length basis" by (cases basis) simp_all
  then have "take (nat n) (concat (replicate (nat n) basis)) =
             take (nat n) (concat (replicate k basis))"
    using assms by (rule take_concat_replicate)
  then show ?thesis using True by (simp add: py_slice_to_def py_repeat_def)
next
  case False
  then show ?thesis by (auto simp: py_slice_to_def py_repeat_def)
qed

subsection \<open>The length check of a stage\<close>

lemma remdups_singleton:
  "length (remdups xs) = 1 \<longleftrightarrow> xs \<noteq> [] \<and> (\<forall>x \<in> set xs. x = hd xs)"
proof -
  have "length (remdups xs) = card (set xs)" by (simp add: length_remdups_card_conv)
  moreover have "card (set xs) = 1 \<longleftrightarrow> xs \<noteq> [] \<and> (\<forall>x \<in> set xs. x = hd xs)"
  proof
    assume "card (set xs) = 1"
    then obtain y where y: "set xs = {y}" by (auto simp: card_1_singleton_iff)
    then have "xs \<noteq> []" by auto
    moreover from this y have "hd xs = y" by (metis hd_in_set singletonD)
    ultimately show "xs \<noteq> [] \<and> (\<forall>x \<in> set xs. x = hd xs)" using y by auto
  next
    assume "xs \<noteq> [] \<and> (\<forall>x \<in> set xs. x = hd xs)"
    then have "set xs = {hd xs}" by auto
    then show "card (set xs) = 1" by simp
  qed
  ultimately show ?thesis by simp
qed

lemma ResStage_lengths_equal:
  "length (ResStage_lengths a) = 1 \<longleftrightarrow>
     length (sa_dim_out a) = length (sa_dim_in a) \<and>
     length (sa_temporal_kernel_basis a) = length (sa_dim_in a) \<and>
     length (sa_temporal_conv_1x1 a) = length (sa_dim_in a) \<and>
     length (sa_temporal_stride a) = length (sa_dim_in a) \<and>
     length (sa_spatial_stride a) = length (sa_dim_in a) \<and>
     length (sa_num_blocks a) = length (sa_dim_in a) \<and>
     length (sa_dim_inner a) = length (sa_dim_in a) \<and>
     length (sa_num_groups a) = length (sa_dim_in a)"
  unfolding ResStage_lengths_def remdups_singleton by auto

lemma ResStage_lengths_equalD:
  "length (ResStage_lengths a) = 1 \<Longrightarrow>
     length (sa_temporal_kernel_basis a) = length (sa_num_blocks a)"
  by (simp only: ResStage_lengths_equal)

lemma ResStage_init_sizes:
  assumes "ResStage_init a al = (Inr st, al')"
  shows "rs_temporal_kernel_sizes st =
           temporal_kernel_sizes (sa_temporal_kernel_basis a) (sa_num_blocks a)"
    and "rs_num_pathways st = length (sa_num_blocks a)"
    and "length (ResStage_lengths a) = 1"
  using assms by (auto simp: ResStage_init_def Let_def split: if_splits prod.splits sum.splits)

section \<open>Temporal kernel sizes\<close>

text \<open>
  C7. For every pathway \<open>p\<close> of a stage that was built, the temporal kernel sizes of its
  blocks are the first \<open>num_blocks[p]\<close> entries of the basis of \<open>p\<close> repeated \<open>k\<close>
  times, whatever number \<open>k\<close> of repetitions is enough to cover the blocks; for the basis
  \<open>[3, 1]\<close> and five blocks they are \<open>[3, 1, 3, 1, 3]\<close>.
\<close>

theorem temporal_kernel_sizes_cycle_basis:
  assumes "ResStage_init a al = (Inr st, al')" and "p < rs_num_pathways st"
  shows "(\<forall>k. nat (sa_num_blocks a ! p) \<le> k * length (sa_temporal_kernel_basis a ! p) \<longrightarrow>
            rs_temporal_kernel_sizes st ! p =
              take (nat (sa_num_blocks a ! p))
                (concat (replicate k (sa_temporal_kernel_basis a ! p))))
       \<and> temporal_kernel_sizes [[3, 1]] [5] = [[3, 1, 3, 1, 3]]"
proof -
  have "length (sa_temporal_kernel_basis a) = length (sa_num_blocks a)"
    using ResStage_init_sizes(3)[OF assms(1)] by (rule ResStage_lengths_equalD)
  then have p: "p < length (sa_temporal_kernel_basis a)"
    using assms(2) ResStage_init_sizes(2)[OF assms(1)] by simp
  have sizes: "rs_temporal_kernel_sizes st ! p =
          py_slice_to (py_repeat (sa_temporal_kernel_basis a ! p) (sa_num_blocks a ! p))
            (sa_num_blocks a ! p)"
    using p by (simp add: ResStage_init_sizes(1)[OF assms(1)] temporal_kernel_sizes_def)
  have example: "temporal_kernel_sizes [[3, 1]] [5] = [[3, 1, 3, 1, 3]]"
    by code_simp
  show ?thesis
  proof (intro conjI allI impI)
    fix k
    assume "nat (sa_num_blocks a ! p) \<le> k * length (sa_temporal_kernel_basis a ! p)"
    then show "rs_temporal_kernel_sizes st ! p =
              take (nat (sa_num_blocks a ! p))
                (concat (replicate k (sa_temporal_kernel_basis a ! p)))"
      unfolding sizes by (rule py_cycle)
  next
    show "temporal_kernel_sizes [[3, 1]] [5] = [[3, 1, 3, 1, 3]]" by (rule example)
  qed
qed

theorem temporal_kernel_sizes_cycle_basis_witness:
  "\<exists>st al'. ResStage_init example_stage_args [] = (Inr st, al') \<and> 0 < rs_num_pathways st
     \<and> rs_temporal_kernel_sizes st ! 0 = [3, 1, 3, 1, 3]"
proof -
  obtain st al' where init: "ResStage_init example_stage_args [] = (Inr st, al')"
    using example_stage_builds by blast
  have p: "0 < rs_num_pathways st"
    using ResStage_init_sizes(2)[OF init] by (simp add: example_stage_args_def)
  have "nat (sa_num_blocks example_stage_args ! 0)
          \<le> 3 * length (sa_temporal_kernel_basis example_stage_args ! 0)"
    by (simp add: example_stage_args_def)
  with temporal_kernel_sizes_cycle_basis[OF init p]
  have "rs_temporal_kernel_sizes st ! 0 =
          take (nat (sa_num_blocks example_stage_args ! 0))
            (concat (replicate 3 (sa_temporal_kernel_basis example_stage_args ! 0)))"
    by blast
  then have "rs_temporal_kernel_sizes st ! 0 = [3, 1, 3, 1, 3]"
    by (simp add: example_stage_args_def replicate_numeral)
  with init p show ?thesis by blast
qed

section \<open>Errors of the constructors\<close>

lemma for_loop_error:
  assumes "\<And>i acc s e. fst (body i acc s) = Inl e \<Longrightarrow> P e"
    and "fst (for_loop is body acc s) = Inl e"
  shows "P e"
  using assms(2)
proof (induction "is" arbitrary: acc s)
  case Nil
  then show ?case by simp
next
  case (Cons i "is")
  obtain r s' where b: "body i acc s = (r, s')" by (cases "body i acc s")
  show ?case
  proof (cases r)
    case (Inl e')
    with Cons.prems b have "e' = e" by simp
    with b Inl assms(1)[of i acc s e] show ?thesis by simp
  next
    case (Inr acc')
    with Cons.prems b have "fst (for_loop is body acc' s') = Inl e" by simp
    then show ?thesis by (rule Cons.IH)
  qed
qed

lemma call_skip_transformation_error:
  assumes "call_skip_transformation c dim_in dim_out ts ss eps mmt dpa = Inl e"
    and "dim_in \<noteq> dim_out \<or> ss \<noteq> 1 \<or> ts \<noteq> 1"
  shows "e = TypeError"
proof (cases c)
  case (Class k)
  with assms show ?thesis
    by (cases k)
      (auto simp: PostactivatedShortcutTransformation_init_def
         PreactivatedShortcutTransformation_init_def)
next
  case (Instance k)
  with assms show ?thesis by simp
qed

lemma call_residual_transformation_error:
  assumes "call_residual_transformation c dim_in dim_out ts ss g di tk tc dpa = Inl e"
  shows "e = TypeError"
proof (cases c)
  case (Class k)
  with assms show ?thesis by (cases k) auto
next
  case (Instance k)
  with assms show ?thesis by simp
qed

lemma ResBlock_init_error:
  assumes "ResBlock_init a = Inl e"
  shows "e = TypeError"
  using assms
  by (auto simp: ResBlock_init_def bindE_eq_Inl split: if_splits
        dest: call_skip_transformation_error call_residual_transformation_error)

lemma ResStage_block_error:
  assumes "fst (ResStage_block a sizes p i blocks al) = Inl e"
  shows "e = IndexError \<or> e = TypeError"
  using assms
  by (auto simp: ResStage_block_def py_index_def split: if_splits sum.splits
        dest: ResBlock_init_error)

lemma ResStage_pathway_error:
  assumes "fst (ResStage_pathway a sizes p pathways al) = Inl e"
  shows "e = IndexError \<or> e = TypeError"
proof -
  obtain r al' where l: "for_loop (py_range (sa_num_blocks a ! p)) (ResStage_block a sizes p) [] al = (r, al')"
    by (cases "for_loop (py_range (sa_num_blocks a ! p)) (ResStage_block a sizes p) [] al")
  with assms have "fst (for_loop (py_range (sa_num_blocks a ! p)) (ResStage_block a sizes p) [] al) = Inl e"
    by (cases r) (auto simp: ResStage_pathway_def split: if_splits)
  then show ?thesis
    by (rule for_loop_error[rotated]) (rule ResStage_block_error)
qed

lemma ResStage_init_error:
  assumes "fst (ResStage_init a al) = Inl e"
  shows "e = ResStage_length_error \<and> length (ResStage_lengths a) \<noteq> 1 \<or> e = IndexError \<or> e = TypeError"
proof (cases "length (ResStage_lengths a) \<noteq> 1")
  case True
  with assms show ?thesis by (simp add: ResStage_init_def)
next
  case False
  let ?loop = "for_loop [0..<length (sa_num_blocks a)]
     (ResStage_pathway a (temporal_kernel_sizes (sa_temporal_kernel_basis a) (sa_num_blocks a))) [] al"
  obtain r al' where l: "?loop = (r, al')" by (cases ?loop)
  with assms False have "fst ?loop = Inl e"
    by (cases r) (auto simp: ResStage_init_def Let_def)
  then have "e = IndexError \<or> e = TypeError"
    by (rule for_loop_error[rotated]) (rule ResStage_pathway_error)
  then show ?thesis by simp
qed

lemma ResNeXt3DStemMultiPathway_init_error:
  assumes "fst (ResNeXt3DStemMultiPathway_init a al) = Inl e"
  shows "e = ResNeXt3DStemMultiPathway_length_error \<and>
         \<not> (length (ma_dim_out a) = length (ma_dim_in a) \<and>
             length (ma_kernel a) = length (ma_dim_in a) \<and>
             length (ma_stride a) = length (ma_dim_in a) \<and>
             length (ma_padding a) = length (ma_dim_in a))"
proof -
  let ?loop = "for_loop [0..<length (ma_dim_in a)] (ResNeXt3DStemMultiPathway_stem a) [] al"
  have "fst ?loop \<noteq> Inl e'" for e'
  proof
    assume "fst ?loop = Inl e'"
    then show False
      by (rule for_loop_error[rotated]) (simp add: ResNeXt3DStemMultiPathway_stem_def)
  qed
  then show ?thesis
    using assms
    by (cases ?loop) (auto simp: ResNeXt3DStemMultiPathway_init_def split: if_splits sum.splits)
qed

text \<open>
  C8. A stage whose nine per-pathway lists do not all have one length, and a multi-pathway
  stem whose five lists do not, are rejected with their ValueError, and the log of
  allocated sub-modules is left as it was: nothing has been allocated. With lists of one
  length the stage does not raise that error, and the stem is built.
\<close>

theorem length_mismatch_rejected_before_allocation:
  "(\<not> (length (sa_dim_out a) = length (sa_dim_in a) \<and>
        length (sa_temporal_kernel_basis a) = length (sa_dim_in a) \<and>
        length (sa_temporal_conv_1x1 a) = length (sa_dim_in a) \<and>
        length (sa_temporal_stride a) = length (sa_dim_in a) \<and>
        length (sa_spatial_stride a) = length (sa_dim_in a) \<and>
        length (sa_num_blocks a) = length (sa_dim_in a) \<and>
        length (sa_dim_inner a) = length (sa_dim_in a) \<and>
        length (sa_num_groups a) = length (sa_dim_in a))
      \<longrightarrow> ResStage_init a al = (Inl ResStage_length_error, al))
   \<and> (length (sa_dim_out a) = length (sa_dim_in a) \<and>
        length (sa_temporal_kernel_basis a) = length (sa_dim_in a) \<and>
        length (sa_temporal_conv_1x1 a) = length (sa_dim_in a) \<and>
        length (sa_temporal_stride a) = length (sa_dim_in a) \<and>
        length (sa_spatial_stride a) = length (sa_dim_in a) \<and>
        length (sa_num_blocks a) = length (sa_dim_in a) \<and>
        length (sa_dim_inner a) = length (sa_dim_in a) \<and>
        length (sa_num_groups a) = length (sa_dim_in a)
      \<longrightarrow> fst (ResStage_init a al) \<noteq> Inl ResStage_length_error)
   \<and> (\<not> (length (ma_dim_out m) = length (ma_dim_in m) \<and>
           length (ma_kernel m) = length (ma_dim_in m) \<and>
           length (ma_stride m) = length (ma_dim_in m) \<and>
           length (ma_padding m) = length (ma_dim_in m))
      \<longrightarrow> ResNeXt3DStemMultiPathway_init m al =
            (Inl ResNeXt3DStemMultiPathway_length_error, al))
   \<and> (length (ma_dim_out m) = length (ma_dim_in m) \<and>
       length (ma_kernel m) = length (ma_dim_in m) \<and>
       length (ma_stride m) = length (ma_dim_in m) \<and>
       length (ma_padding m) = length (ma_dim_in m)
      \<longrightarrow> (\<exists>stem. fst (ResNeXt3DStemMultiPathway_init m al) = Inr stem))"
proof (intro conjI impI)
  assume "\<not> (length (sa_dim_out a) = length (sa_dim_in a) \<and>
        length (sa_temporal_kernel_basis a) = length (sa_dim_in a) \<and>
        length (sa_temporal_conv_1x1 a) = length (sa_dim_in a) \<and>
        length (sa_temporal_stride a) = length (sa_dim_in a) \<and>
        length (sa_spatial_stride a) = length (sa_dim_in a) \<and>
        length (sa_num_blocks a) = length (sa_dim_in a) \<and>
        length (sa_dim_inner a) = length (sa_dim_in a) \<and>
        length (sa_num_groups a) = length (sa_dim_in a))"
  then have "length (ResStage_lengths a) \<noteq> 1" unfolding ResStage_lengths_equal .
  then show "ResStage_init a al = (Inl ResStage_length_error, al)"
    by (simp add: ResStage_init_def)
next
  assume "length (sa_dim_out a) = length (sa_dim_in a) \<and>
        length (sa_temporal_kernel_basis a) = length (sa_dim_in a) \<and>
        length (sa_temporal_conv_1x1 a) = length (sa_dim_in a) \<and>
        length (sa_temporal_stride a) = length (sa_dim_in a) \<and>
        length (sa_spatial_stride a) = length (sa_dim_in a) \<and>
        length (sa_num_blocks a) = length (sa_dim_in a) \<and>
        length (sa_dim_inner a) = length (sa_dim_in a) \<and>
        length (sa_num_groups a) = length (sa_dim_in a)"
  then have eq: "length (ResStage_lengths a) = 1" unfolding ResStage_lengths_equal .
  show "fst (ResStage_init a al) \<noteq> Inl ResStage_length_error"
  proof
    assume "fst (ResStage_init a al) = Inl ResStage_length_error"
    from ResStage_init_error[OF this] eq show False
      by (simp add: ResStage_length_error_def)
  qed
next
  assume "\<not> (length (ma_dim_out m) = length (ma_dim_in m) \<and>
           length (ma_kernel m) = length (ma_dim_in m) \<and>
           length (ma_stride m) = length (ma_dim_in m) \<and>
           length (ma_padding m) = length (ma_dim_in m))"
  then show "ResNeXt3DStemMultiPathway_init m al =
            (Inl ResNeXt3DStemMultiPathway_length_error, al)"
    by (auto simp: ResNeXt3DStemMultiPathway_init_def)
next
  assume eq: "length (ma_dim_out m) = length (ma_dim_in m) \<and>
       length (ma_kernel m) = length (ma_dim_in m) \<and>
       length (ma_stride m) = length (ma_dim_in m) \<and>
       length (ma_padding m) = length (ma_dim_in m)"
  show "\<exists>stem. fst (ResNeXt3DStemMultiPathway_init m al) = Inr stem"
  proof (cases "fst (ResNeXt3DStemMultiPathway_init m al)")
    case (Inl e)
    from ResNeXt3DStemMultiPathway_init_error[OF this] eq show ?thesis by simp
  next
    case (Inr stem)
    then show ?thesis by simp
  qed
qed

theorem length_mismatch_rejected_before_allocation_witness:
  "ResStage_init (example_stage_args\<lparr>sa_num_groups := [1, 1]\<rparr>) [] =
     (Inl ResStage_length_error, [])
   \<and> fst (ResStage_init example_stage_args []) \<noteq> Inl ResStage_length_error
   \<and> ResNeXt3DStemMultiPathway_init (example_stem_args\<lparr>ma_padding := []\<rparr>) [] =
       (Inl ResNeXt3DStemMultiPathway_length_error, [])
   \<and> (\<exists>stem. fst (ResNeXt3DStemMultiPathway_init example_stem_args []) = Inr stem)"
  using length_mismatch_rejected_before_allocation
          [of "example_stage_args\<lparr>sa_num_groups := [1, 1]\<rparr>" "[]"
              "example_stem_args\<lparr>ma_padding := []\<rparr>"]
        length_mismatch_rejected_before_allocation
          [of example_stage_args "[]" example_stem_args]
  by (simp add: example_stage_args_def example_stem_args_def)

text \<open>
  When the lists do have one length, building allocates: the log of the example stage.
\<close>

lemma example_stage_allocation_log:
  "snd (ResStage_init example_stage_args []) =
     [''ResBlock'', ''ResBlock'', ''ResBlock'', ''ResBlock'', ''ResBlock'', ''Sequential'']"
  by (simp add: example_stage_args_def stage_defs block_defs Let_def)

text \<open>
  C9. Both skip constructors fail their assertion when the channel count and both strides
  are unchanged, and are built otherwise. \<open>ResBlock\<close> calls them only in the second
  case, so neither building a block nor building a stage ever ends in an AssertionError.
\<close>

theorem skip_assertion_unreachable:
  "(dim_in = dim_out \<and> spatial_stride = 1 \<and> temporal_stride = 1 \<longrightarrow>
      PostactivatedShortcutTransformation_init dim_in dim_out temporal_stride spatial_stride
        eps mmt = Inl AssertionError
    \<and> PreactivatedShortcutTransformation_init dim_in dim_out temporal_stride spatial_stride
        inplace_relu eps mmt disable_pre_activation = Inl AssertionError)
   \<and> (dim_in \<noteq> dim_out \<or> spatial_stride \<noteq> 1 \<or> temporal_stride \<noteq> 1 \<longrightarrow>
      (\<exists>m. PostactivatedShortcutTransformation_init dim_in dim_out temporal_stride
              spatial_stride eps mmt = Inr m)
    \<and> (\<exists>m. PreactivatedShortcutTransformation_init dim_in dim_out temporal_stride
              spatial_stride inplace_relu eps mmt disable_pre_activation = Inr m))
   \<and> ResBlock_init ba \<noteq> Inl AssertionError
   \<and> fst (ResStage_init sa al) \<noteq> Inl AssertionError"
proof (intro conjI impI)
  show "ResBlock_init ba \<noteq> Inl AssertionError"
    using ResBlock_init_error[of ba AssertionError] by auto
  show "fst (ResStage_init sa al) \<noteq> Inl AssertionError"
    using ResStage_init_error[of sa al AssertionError] by (auto simp: ResStage_length_error_def)
qed (auto simp: PostactivatedShortcutTransformation_init_def
       PreactivatedShortcutTransformation_init_def)

theorem skip_assertion_unreachable_witness:
  "PostactivatedShortcutTransformation_init 256 256 1 1 default_bn_eps default_bn_mmt =
     Inl AssertionError
   \<and> PreactivatedShortcutTransformation_init 256 256 1 1 True default_bn_eps default_bn_mmt
       False = Inl AssertionError
   \<and> (\<exists>m. PostactivatedShortcutTransformation_init 64 256 1 1 default_bn_eps default_bn_mmt =
            Inr m)
   \<and> (\<exists>m. PreactivatedShortcutTransformation_init 64 256 1 1 True default_bn_eps
            default_bn_mmt False = Inr m)
   \<and> ResBlock_init example_block_args \<noteq> Inl AssertionError
   \<and> fst (ResStage_init example_stage_args []) \<noteq> Inl AssertionError"
  using skip_assertion_unreachable
          [of 256 256 1 1 default_bn_eps default_bn_mmt True False example_block_args
              example_stage_args "[]"]
        skip_assertion_unreachable
          [of 64 256 1 1 default_bn_eps default_bn_mmt True False example_block_args
              example_stage_args "[]"]
  by simp

section \<open>The trailing activation of the last stage\<close>

text \<open>
  A stage built with a class as its residual strategy, which is what every caller in the
  file passes, has nothing but blocks in its pathways, whether or not it is the last stage.
\<close>

lemma for_loop_invariant:
  assumes "for_loop is body acc s = (Inr acc', s')" and "I acc"
    and "\<And>i acc s acc' s'. I acc \<Longrightarrow> body i acc s = (Inr acc', s') \<Longrightarrow> I acc'"
  shows "I acc'"
  using assms(1,2)
proof (induction "is" arbitrary: acc s)
  case Nil
  then show ?case by simp
next
  case (Cons i "is")
  obtain r s1 where b: "body i acc s = (r, s1)" by (cases "body i acc s")
  with Cons.prems(1) obtain acc1 where r: "r = Inr acc1"
    and rest: "for_loop is body acc1 s1 = (Inr acc', s')"
    by (cases r) auto
  from Cons.prems(2) b[unfolded r] have "I acc1" by (rule assms(3))
  with rest show ?case by (rule Cons.IH)
qed

lemma dict_set_cases:
  "(k', v') \<in> set (dict_set d k v) \<Longrightarrow> (k', v') \<in> set d \<or> (k', v') = (k, v)"
  by (induction d) (auto split: if_splits)

lemma ResStage_block_only_blocks:
  assumes "ResStage_block a sizes p i blocks al = (Inr blocks', al')"
    and "\<forall>item \<in> set blocks. \<exists>b. item = SeqResBlock b"
  shows "\<forall>item \<in> set blocks'. \<exists>b. item = SeqResBlock b"
  using assms by (auto simp: ResStage_block_def split: sum.splits)

lemma ResStage_pathway_only_blocks:
  assumes "sa_residual_transformation a = Class c"
    and "ResStage_pathway a sizes p pathways al = (Inr pathways', al')"
    and "\<forall>(name, pathway) \<in> set pathways. \<forall>item \<in> set pathway. \<exists>b. item = SeqResBlock b"
  shows "\<forall>(name, pathway) \<in> set pathways'. \<forall>item \<in> set pathway. \<exists>b. item = SeqResBlock b"
proof -
  let ?loop = "for_loop (py_range (sa_num_blocks a ! p)) (ResStage_block a sizes p) [] al"
  obtain r al1 where loop: "?loop = (r, al1)" by (cases ?loop)
  with assms(1,2) obtain blocks where r: "r = Inr blocks"
    and new: "pathways' = dict_set pathways (pathway_name p) blocks"
    by (cases r) (auto simp: ResStage_pathway_def)
  have "\<forall>item \<in> set ([] :: Sequential). \<exists>b. item = SeqResBlock b" by simp
  with loop[unfolded r]
  have blocks: "\<forall>item \<in> set blocks. \<exists>b. item = SeqResBlock b"
    by (rule for_loop_invariant) (rule ResStage_block_only_blocks)
  show ?thesis
    unfolding new using assms(3) blocks by (auto dest!: dict_set_cases)
qed

lemma class_strategy_never_appends_activation:
  assumes "sa_residual_transformation a = Class c"
    and "ResStage_init a al = (Inr st, al')"
  shows "\<forall>(name, pathway) \<in> set (rs_pathways st). \<forall>item \<in> set pathway. \<exists>b. item = SeqResBlock b"
proof -
  let ?sizes = "temporal_kernel_sizes (sa_temporal_kernel_basis a) (sa_num_blocks a)"
  let ?loop = "for_loop [0..<length (sa_num_blocks a)] (ResStage_pathway a ?sizes) [] al"
  obtain r al1 where loop: "?loop = (r, al1)" by (cases ?loop)
  with assms(2) have r: "r = Inr (rs_pathways st)"
    by (cases r) (auto simp: ResStage_init_def Let_def split: if_splits)
  have "\<forall>(name, pathway) \<in> set ([] :: Sequential dict).
          \<forall>item \<in> set pathway. \<exists>b. item = SeqResBlock b" by simp
  with loop[unfolded r] show ?thesis
    by (rule for_loop_invariant) (rule ResStage_pathway_only_blocks[OF assms(1)])
qed

lemma preact_last_stage:
  "\<exists>m al b1 b2 b3.
      resnext3d_preact_i3d50 [] = (Inr m, al) \<and>
      rs_pathways (last (m_stages m)) =
        [(''pathway0'', [SeqResBlock b1, SeqResBlock b2, SeqResBlock b3])]"
  by (simp add: resnext3d_preact_i3d50_def resnext3d_preact_i3d50_args_def model_defs stem_defs
        stage_defs block_defs Let_def)

text \<open>
  C3, at a last stage under pre-activation (\<open>final_stage\<close> set, the pre-activated
  bottleneck class as residual strategy, five blocks): the pathway holds its five blocks
  and nothing after them. The strategy is a class object, which \<open>isinstance\<close> does not
  count as an instance of that class. Likewise the last stage of the pre-activated reference
  configuration holds its three blocks and nothing after them.
\<close>

theorem final_stage_preact_has_no_trailing_activation:
  "(\<exists>st al b1 b2 b3 b4 b5.
      ResStage_init example_stage_args [] = (Inr st, al) \<and>
      rs_pathways st =
        [(''pathway0'', [SeqResBlock b1, SeqResBlock b2, SeqResBlock b3, SeqResBlock b4,
                         SeqResBlock b5])])
   \<and> sa_final_stage example_stage_args
   \<and> sa_residual_transformation example_stage_args =
       Class PreactivatedBottleneckTransformation_class
   \<and> \<not> isinstance (sa_residual_transformation example_stage_args)
          PreactivatedBottleneckTransformation_class
   \<and> (\<exists>m al b1 b2 b3.
        resnext3d_preact_i3d50 [] = (Inr m, al) \<and>
        rs_pathways (last (m_stages m)) =
          [(''pathway0'', [SeqResBlock b1, SeqResBlock b2, SeqResBlock b3])])"
proof -
  have "\<exists>st al b1 b2 b3 b4 b5.
      ResStage_init example_stage_args [] = (Inr st, al) \<and>
      rs_pathways st =
        [(''pathway0'', [SeqResBlock b1, SeqResBlock b2, SeqResBlock b3, SeqResBlock b4,
                         SeqResBlock b5])]"
    by (simp add: example_stage_args_def stage_defs block_defs Let_def)
  moreover have "sa_final_stage example_stage_args
     \<and> sa_residual_transformation example_stage_args =
         Class PreactivatedBottleneckTransformation_class
     \<and> \<not> isinstance (sa_residual_transformation example_stage_args)
            PreactivatedBottleneckTransformation_class"
    by (simp add: example_stage_args_def)
  ultimately show ?thesis using preact_last_stage by blast
qed

section \<open>Initialisation of the head\<close>

lemma head_of_model:
  assumes "ResNeXt3D_init hp al = (Inr m, al')"
  shows "m_head m = Some (FullyConvolutionalLinearHead_init (hp_num_classes hp) 2048
                            (hp_head_pool_size hp) (Some True) (1 / 2))"
  using assms
  by (auto simp: ResNeXt3D_init_def Let_def split: prod.splits sum.splits)

lemma head_linear_default_in_every_model:
  assumes "ResNeXt3D_init hp al = (Inr m, al')"
  shows "\<exists>head. m_head m = Some head
           \<and> linear_weight (fcl_projection (head_head_fcl head)) = TorchDefault
           \<and> linear_bias (fcl_projection (head_head_fcl head)) = Some TorchDefault"
  by (simp add: head_of_model[OF assms] FullyConvolutionalLinearHead_init_def
        FullyConvolutionalLinear_init_def nn_Linear_def)

lemma preact_builds: "\<exists>m al. resnext3d_preact_i3d50 [] = (Inr m, al)"
  by (simp add: resnext3d_preact_i3d50_def resnext3d_preact_i3d50_args_def model_defs stem_defs
        stage_defs block_defs Let_def)

text \<open>
  C4, at the pre-activated reference configuration: the dense layer of the head of the
  constructed model still has the parameters its own constructor gave it, weight and bias;
  the initialisation policy, had it visited the layer, would have left a normal
  distribution of standard deviation 0.01 and a zero bias.
\<close>

theorem head_linear_keeps_default_parameters:
  "\<exists>m al h. resnext3d_preact_i3d50 [] = (Inr m, al) \<and> m_head m = Some h
     \<and> linear_weight (fcl_projection (head_head_fcl h)) = TorchDefault
     \<and> linear_bias (fcl_projection (head_head_fcl h)) = Some TorchDefault
     \<and> linear_weight (init_parameter_Linear (fcl_projection (head_head_fcl h))) =
         NormalInit 0 (1 / 100)
     \<and> linear_bias (init_parameter_Linear (fcl_projection (head_head_fcl h))) =
         Some (ConstantInit 0)"
proof -
  obtain m al where build: "resnext3d_preact_i3d50 [] = (Inr m, al)"
    using preact_builds by blast
  then have "m_head m = Some (FullyConvolutionalLinearHead_init
               (hp_num_classes resnext3d_preact_i3d50_args) 2048
               (hp_head_pool_size resnext3d_preact_i3d50_args) (Some True) (1 / 2))"
    unfolding resnext3d_preact_i3d50_def by (rule head_of_model)
  with build show ?thesis
    by (simp add: FullyConvolutionalLinearHead_init_def FullyConvolutionalLinear_init_def
          nn_Linear_def init_parameter_Linear_def)
qed

section \<open>The post-activated reference configuration\<close>

text \<open>
  A block whose skip path is the post-activated shortcut never returns from \<open>forward\<close>,
  whatever the layers compute: the lookup of \<open>self.skip.stride\<close> fails. Nor does a
  pathway that starts with such a block, a one-pathway stage with such a pathway, or a
  model whose first stage is such a stage.
\<close>

lemma ResBlock_forward_postactivated_skip:
  assumes "rb_skip blk = SkipPostactivated s"
  shows "ResBlock_forward ops blk x \<noteq> Inr y"
  using assms by (auto simp: ResBlock_forward_def bindE_eq_Inr)

lemma Sequential_forward_postactivated_skip:
  assumes "rb_skip blk = SkipPostactivated s"
  shows "Sequential_forward ops (SeqResBlock blk # items) x \<noteq> Inr y"
  using ResBlock_forward_postactivated_skip[OF assms, of ops x]
  by (auto split: sum.splits)

lemma ResStage_forward_postactivated_skip:
  assumes "rs_num_pathways st = 1"
    and "dict_get (rs_pathways st) (pathway_name 0) = Inr (SeqResBlock blk # items)"
    and "rb_skip blk = SkipPostactivated s"
  shows "ResStage_forward ops st inputs \<noteq> Inr outs"
  using assms(1,2) Sequential_forward_postactivated_skip[OF assms(3), of ops items]
  by (auto simp: ResStage_forward_def split: sum.splits)

lemma ResNeXt3D_forward_postactivated_skip:
  assumes "m_stages m = st # stages"
    and "rs_num_pathways st = 1"
    and "dict_get (rs_pathways st) (pathway_name 0) = Inr (SeqResBlock blk # items)"
    and "rb_skip blk = SkipPostactivated s"
  shows "ResNeXt3D_forward ops m x \<noteq> Inr y"
  using assms(1) ResStage_forward_postactivated_skip[OF assms(2,3,4), of ops]
  by (auto simp: ResNeXt3D_forward_def bindE_eq_Inr split: sum.splits prod.splits option.splits)

lemma postact_first_block:
  "\<exists>m al st stages blk items s.
     resnext3d_postact_i3d50 [] = (Inr m, al) \<and> m_stages m = st # stages \<and>
     rs_num_pathways st = 1 \<and>
     dict_get (rs_pathways st) (pathway_name 0) = Inr (SeqResBlock blk # items) \<and>
     rb_skip blk = SkipPostactivated s"
  by (simp add: resnext3d_postact_i3d50_def resnext3d_postact_i3d50_args_def model_defs stem_defs
        stage_defs block_defs dict_get_def Let_def)

lemma postact_forward_value:
  "\<exists>m al. resnext3d_postact_i3d50 [] = (Inr m, al) \<and>
      ResNeXt3D_forward shape_ops m [1, 3, 8, 224, 224] = Inl (AttributeError ''stride'')"
  by (simp add: resnext3d_postact_i3d50_def resnext3d_postact_i3d50_args_def model_defs stem_defs
        stage_defs block_defs forward_defs shape_defs Let_def)

text \<open>
  C2, at the post-activated reference configuration: the model is built; on an input of
  shape \<open>(1, 3, 8, 224, 224)\<close> its forward pass ends in the AttributeError of the lookup
  \<open>self.skip.stride\<close> in the first block of the first stage, which has a projection;
  and for no layer functions and no input does its forward pass return an output.
\<close>

theorem postact_forward_raises_AttributeError:
  "\<exists>m al. resnext3d_postact_i3d50 [] = (Inr m, al) \<and>
      ResNeXt3D_forward shape_ops m [1, 3, 8, 224, 224] = Inl (AttributeError ''stride'') \<and>
      (\<forall>ops x y. ResNeXt3D_forward ops m x \<noteq> Inr y)"
proof -
  obtain m al st stages blk items s where
    build: "resnext3d_postact_i3d50 [] = (Inr m, al)" and
    first: "m_stages m = st # stages" "rs_num_pathways st = 1"
      "dict_get (rs_pathways st) (pathway_name 0) = Inr (SeqResBlock blk # items)"
      "rb_skip blk = SkipPostactivated s"
    using postact_first_block by blast
  from postact_forward_value build
  have "ResNeXt3D_forward shape_ops m [1, 3, 8, 224, 224] = Inl (AttributeError ''stride'')"
    by auto
  moreover have "\<forall>ops x y. ResNeXt3D_forward ops m x \<noteq> Inr y"
    using ResNeXt3D_forward_postactivated_skip[OF first] by blast
  ultimately show ?thesis using build by blast
qed

section \<open>The skip path of a block\<close>

lemma broadcast_rev_commute: "broadcast_rev xs ys = broadcast_rev ys xs"
proof (induction xs ys rule: broadcast_rev.induct)
  case (1 ys)
  then show ?case by (cases ys) simp_all
next
  case (2 x xs)
  then show ?case by simp
next
  case (3 x xs y ys)
  then show ?case by auto
qed

lemma shape_add_commute: "shape_add x y = shape_add y x"
  by (simp add: shape_add_def broadcast_rev_commute[of "rev x" "rev y"])

lemma call_skip_transformation_not_identity:
  "call_skip_transformation c dim_in dim_out ts ss eps mmt dpa = Inr sk \<Longrightarrow> sk \<noteq> SkipIdentity"
proof (cases c)
  case (Class k)
  assume "call_skip_transformation c dim_in dim_out ts ss eps mmt dpa = Inr sk"
  with Class show ?thesis by (cases k) (auto simp: bindE_eq_Inr)
next
  case (Instance k)
  assume "call_skip_transformation c dim_in dim_out ts ss eps mmt dpa = Inr sk"
  with Instance show ?thesis by simp
qed

lemma ResBlock_init_skip:
  assumes "ResBlock_init a = Inr blk"
  shows "rb_skip blk \<noteq> SkipIdentity \<longleftrightarrow>
           ba_dim_in a \<noteq> ba_dim_out a \<or> ba_spatial_stride a \<noteq> 1 \<or> ba_temporal_stride a \<noteq> 1"
  using assms
  by (auto simp: ResBlock_init_def bindE_eq_Inr split: if_splits
        dest: call_skip_transformation_not_identity)

lemma ResBlock_forward_identity:
  assumes "rb_skip blk = SkipIdentity"
  shows "ResBlock_forward ops blk x =
           bindE (residual_forward ops (rb_residual blk) x) (\<lambda>residual_out.
           bindE (t_add ops x residual_out) (t_relu ops (rb_relu blk)))"
proof (cases "residual_forward ops (rb_residual blk) x")
  case (Inl e)
  with assms show ?thesis by (simp add: ResBlock_forward_def)
next
  case (Inr r)
  with assms show ?thesis
    by (cases "t_add ops x r") (simp_all add: ResBlock_forward_def)
qed

lemma ResBlock_init_total:
  assumes "ba_skip_transformation a = Class c" and "ba_residual_transformation a = Class r"
  shows "\<exists>blk. ResBlock_init a = Inr blk"
proof -
  obtain res where res:
    "call_residual_transformation (ba_residual_transformation a) (ba_dim_in a)
       (ba_dim_out a) (ba_temporal_stride a) (ba_spatial_stride a) (ba_num_groups a)
       (ba_dim_inner a) (ba_temporal_kernel_size a) (ba_temporal_conv_1x1 a)
       (ba_disable_pre_activation a) = Inr res"
    unfolding assms(2) by (cases r) simp_all
  have "\<exists>sk.
    (if ba_dim_in a \<noteq> ba_dim_out a \<or> ba_spatial_stride a \<noteq> 1 \<or> ba_temporal_stride a \<noteq> 1
      then call_skip_transformation (ba_skip_transformation a) (ba_dim_in a)
             (ba_dim_out a) (ba_temporal_stride a) (ba_spatial_stride a) (ba_bn_eps a)
             (ba_bn_mmt a) (ba_disable_pre_activation a)
      else Inr SkipIdentity) = Inr sk"
  proof (cases "ba_dim_in a \<noteq> ba_dim_out a \<or> ba_spatial_stride a \<noteq> 1 \<or> ba_temporal_stride a \<noteq> 1")
    case True
    then show ?thesis
      unfolding assms(1)
      by (cases c)
        (simp_all add: PostactivatedShortcutTransformation_init_def
           PreactivatedShortcutTransformation_init_def)
  next
    case False
    then show ?thesis by simp
  qed
  then obtain sk where sk:
    "(if ba_dim_in a \<noteq> ba_dim_out a \<or> ba_spatial_stride a \<noteq> 1 \<or> ba_temporal_stride a \<noteq> 1
      then call_skip_transformation (ba_skip_transformation a) (ba_dim_in a)
             (ba_dim_out a) (ba_temporal_stride a) (ba_spatial_stride a) (ba_bn_eps a)
             (ba_bn_mmt a) (ba_disable_pre_activation a)
      else Inr SkipIdentity) = Inr sk" ..
  show ?thesis unfolding ResBlock_init_def sk res by simp
qed

text \<open>
  C5. In a block that was built, the skip path is a projection (one of the two shortcut
  modules, not the identity) exactly when the channel counts differ or a stride is not 1.
  In a block with equal channel counts and both strides 1 the skip path is the identity and,
  addition being commutative, \<open>forward(x)\<close> is the activation of \<open>residual(x) + x\<close>.
  With the two strategies given as classes, the block is built.
\<close>

theorem skip_is_projection_iff_shape_changes:
  "(ResBlock_init a = Inr blk \<longrightarrow>
      (rb_skip blk \<noteq> SkipIdentity \<longleftrightarrow>
         ba_dim_in a \<noteq> ba_dim_out a \<or> ba_spatial_stride a \<noteq> 1 \<or> ba_temporal_stride a \<noteq> 1)
    \<and> (ba_dim_in a = ba_dim_out a \<and> ba_spatial_stride a = 1 \<and> ba_temporal_stride a = 1
        \<and> (\<forall>u v. t_add ops u v = t_add ops v u) \<longrightarrow>
        rb_skip blk = SkipIdentity \<and>
        ResBlock_forward ops blk x =
          bindE (residual_forward ops (rb_residual blk) x) (\<lambda>residual_out.
          bindE (t_add ops residual_out x) (t_relu ops (rb_relu blk)))))
   \<and> (ba_skip_transformation a = Class c \<and> ba_residual_transformation a = Class r \<longrightarrow>
        (\<exists>b. ResBlock_init a = Inr b))"
proof (intro conjI impI)
  assume init: "ResBlock_init a = Inr blk"
  show "rb_skip blk \<noteq> SkipIdentity \<longleftrightarrow>
         ba_dim_in a \<noteq> ba_dim_out a \<or> ba_spatial_stride a \<noteq> 1 \<or> ba_temporal_stride a \<noteq> 1"
    using init by (rule ResBlock_init_skip)
  assume same: "ba_dim_in a = ba_dim_out a \<and> ba_spatial_stride a = 1 \<and> ba_temporal_stride a = 1
        \<and> (\<forall>u v. t_add ops u v = t_add ops v u)"
  with ResBlock_init_skip[OF init] show id: "rb_skip blk = SkipIdentity" by simp
  from same have "t_add ops x v = t_add ops v x" for v by simp
  then show "ResBlock_forward ops blk x =
          bindE (residual_forward ops (rb_residual blk) x) (\<lambda>residual_out.
          bindE (t_add ops residual_out x) (t_relu ops (rb_relu blk)))"
    by (simp add: ResBlock_forward_identity[OF id])
next
  assume "ba_skip_transformation a = Class c \<and> ba_residual_transformation a = Class r"
  then show "\<exists>b. ResBlock_init a = Inr b" using ResBlock_init_total by blast
qed

theorem skip_is_projection_iff_shape_changes_witness:
  "\<exists>blk. ResBlock_init example_block_args = Inr blk \<and> rb_skip blk = SkipIdentity
     \<and> ResBlock_forward shape_ops blk [1, 256, 8, 56, 56] =
         bindE (residual_forward shape_ops (rb_residual blk) [1, 256, 8, 56, 56])
           (\<lambda>residual_out.
              bindE (t_add shape_ops residual_out [1, 256, 8, 56, 56])
                (t_relu shape_ops (rb_relu blk)))
     \<and> ResBlock_forward shape_ops blk [1, 256, 8, 56, 56] = Inr [1, 256, 8, 56, 56]"
proof -
  have classes: "ba_skip_transformation example_block_args =
                   Class PreactivatedShortcutTransformation_class
                 \<and> ba_residual_transformation example_block_args =
                   Class PreactivatedBottleneckTransformation_class"
    by (simp add: example_block_args_def)
  then have "\<exists>b. ResBlock_init example_block_args = Inr b"
    by (rule skip_is_projection_iff_shape_changes[THEN conjunct2, THEN mp])
  then obtain blk where init: "ResBlock_init example_block_args = Inr blk" ..
  have same: "ba_dim_in example_block_args = ba_dim_out example_block_args
              \<and> ba_spatial_stride example_block_args = 1
              \<and> ba_temporal_stride example_block_args = 1
              \<and> (\<forall>u v. t_add shape_ops u v = t_add shape_ops v u)"
    by (simp add: example_block_args_def shape_ops_def shape_add_commute)
  have "rb_skip blk = SkipIdentity
     \<and> ResBlock_forward shape_ops blk [1, 256, 8, 56, 56] =
         bindE (residual_forward shape_ops (rb_residual blk) [1, 256, 8, 56, 56])
           (\<lambda>residual_out.
              bindE (t_add shape_ops residual_out [1, 256, 8, 56, 56])
                (t_relu shape_ops (rb_relu blk)))"
    by (rule skip_is_projection_iff_shape_changes
               [THEN conjunct1, THEN mp, OF init, THEN conjunct2, THEN mp, OF same])
  moreover from init have "ResBlock_forward shape_ops blk [1, 256, 8, 56, 56] =
      Inr [1, 256, 8, 56, 56]"
    by (auto simp: example_block_args_def block_defs forward_defs shape_defs nn_Conv3d_def
          nn_BatchNorm3d_def nn_ReLU_def Let_def)
  ultimately show ?thesis using init by blast
qed

section \<open>The projection of the head in its two modes\<close>

lemma bindE_assoc: "bindE (bindE r f) g = bindE r (\<lambda>x. bindE (f x) g)"
  by (cases r) simp_all

text \<open>
  C6. On a pooled input of shape \<open>(n, dim_in, t, h, w)\<close> the projection in training mode
  (the mode a module is constructed in) returns the shape \<open>(n, num_classes * (t * h * w))\<close>:
  it permutes, projects and flattens. In inference mode it permutes, projects, applies
  softmax over axis 4 (the class axis after the permutation), averages over axes 1 to 3 and
  flattens, which gives the shape \<open>(n, num_classes)\<close>. The two are different functions:
  on \<open>(1, 2048, 5, 1, 1)\<close> their results differ.
\<close>

theorem head_projection_training_and_inference:
  "FullyConvolutionalLinear_forward shape_ops
      (FullyConvolutionalLinear_init dim_in num_classes) [n, dim_in, t, h, w] =
     Inr [n, num_classes * (t * h * w)]
   \<and> FullyConvolutionalLinear_forward ops (FullyConvolutionalLinear_init dim_in num_classes) x =
       bindE (t_permute ops [0, 2, 3, 4, 1] x) (\<lambda>x.
       bindE (t_linear ops (nn_Linear dim_in num_classes True) x) (t_flatten ops 1))
   \<and> FullyConvolutionalLinear_forward ops
        ((FullyConvolutionalLinear_init dim_in num_classes)\<lparr>fcl_training := False\<rparr>) x =
       bindE (t_permute ops [0, 2, 3, 4, 1] x) (\<lambda>x.
       bindE (t_linear ops (nn_Linear dim_in num_classes True) x) (\<lambda>x.
       bindE (t_softmax ops \<lparr>softmax_dim = 4\<rparr> x) (\<lambda>x.
       bindE (t_mean ops [1, 2, 3] x) (t_flatten ops 1))))
   \<and> FullyConvolutionalLinear_forward shape_ops
        ((FullyConvolutionalLinear_init dim_in num_classes)\<lparr>fcl_training := False\<rparr>)
        [n, dim_in, t, h, w] =
       Inr [n, num_classes]
   \<and> FullyConvolutionalLinear_forward shape_ops
        (FullyConvolutionalLinear_init 2048 400) [1, 2048, 5, 1, 1] \<noteq>
     FullyConvolutionalLinear_forward shape_ops
        ((FullyConvolutionalLinear_init 2048 400)\<lparr>fcl_training := False\<rparr>) [1, 2048, 5, 1, 1]"
proof (intro conjI)
  show "FullyConvolutionalLinear_forward shape_ops
      (FullyConvolutionalLinear_init dim_in num_classes) [n, dim_in, t, h, w] =
     Inr [n, num_classes * (t * h * w)]"
    by (simp add: FullyConvolutionalLinear_forward_def FullyConvolutionalLinear_init_def
          nn_Linear_def shape_defs ac_simps)
  show "FullyConvolutionalLinear_forward shape_ops
        ((FullyConvolutionalLinear_init dim_in num_classes)\<lparr>fcl_training := False\<rparr>)
        [n, dim_in, t, h, w] =
       Inr [n, num_classes]"
    by (simp add: FullyConvolutionalLinear_forward_def FullyConvolutionalLinear_init_def
          nn_Linear_def shape_defs)
  show "FullyConvolutionalLinear_forward shape_ops
        (FullyConvolutionalLinear_init 2048 400) [1, 2048, 5, 1, 1] \<noteq>
     FullyConvolutionalLinear_forward shape_ops
        ((FullyConvolutionalLinear_init 2048 400)\<lparr>fcl_training := False\<rparr>) [1, 2048, 5, 1, 1]"
    by (simp add: FullyConvolutionalLinear_forward_def FullyConvolutionalLinear_init_def
          nn_Linear_def shape_defs)
qed (simp_all add: FullyConvolutionalLinear_forward_def FullyConvolutionalLinear_init_def
      bindE_assoc)

section \<open>The multi-pathway stem writes into its argument\<close>

lemma stem_step_cases:
  assumes "st x = Some xs" and "p < length xs"
  shows
    "(\<exists>e. ResNeXt3DStemMultiPathway_forward_step ops m x p u st = (Inl e, st)) \<or>
     (\<exists>stem y. dict_get (mp_blocks m) (stem_name p) = Inr stem \<and>
        ResNeXt3DStemSinglePathway_forward ops stem (xs ! p) = Inr y \<and>
        ResNeXt3DStemMultiPathway_forward_step ops m x p u st = (Inr (), st(x \<mapsto> xs[p := y])))"
proof (cases "dict_get (mp_blocks m) (stem_name p)")
  case (Inl e)
  with assms show ?thesis by (simp add: ResNeXt3DStemMultiPathway_forward_step_def)
next
  case (Inr stem)
  show ?thesis
  proof (cases "ResNeXt3DStemSinglePathway_forward ops stem (xs ! p)")
    case (Inl e)
    with Inr assms show ?thesis
      by (simp add: ResNeXt3DStemMultiPathway_forward_step_def py_index_def)
  next
    case (Inr y)
    with \<open>dict_get (mp_blocks m) (stem_name p) = Inr stem\<close> assms show ?thesis
      by (simp add: ResNeXt3DStemMultiPathway_forward_step_def py_index_def)
  qed
qed

lemma stem_loop:
  assumes "for_loop ps (ResNeXt3DStemMultiPathway_forward_step ops m x) () st = (r, st')"
    and "st x = Some xs" and "distinct ps" and "\<forall>p \<in> set ps. p < length xs"
  shows "(\<forall>a. a \<noteq> x \<longrightarrow> st' a = st a) \<and>
         (\<exists>ys. st' x = Some ys \<and> length ys = length xs \<and>
            (\<forall>p. p \<notin> set ps \<longrightarrow> ys ! p = xs ! p) \<and>
            ((\<exists>u. r = Inr u) \<longrightarrow>
               (\<forall>p \<in> set ps. \<exists>stem. dict_get (mp_blocks m) (stem_name p) = Inr stem \<and>
                  ResNeXt3DStemSinglePathway_forward ops stem (xs ! p) = Inr (ys ! p))))"
  using assms
proof (induction ps arbitrary: st xs)
  case Nil
  then show ?case by simp
next
  case (Cons p ps)
  from Cons.prems have p: "p < length xs" by simp
  from stem_step_cases[where st = st and x = x and xs = xs and p = p and ops = ops and m = m
         and u = "()", OF Cons.prems(2) p]
  show ?case
  proof
    assume "\<exists>e. ResNeXt3DStemMultiPathway_forward_step ops m x p () st = (Inl e, st)"
    with Cons.prems show ?thesis by auto
  next
    assume "\<exists>stem y. dict_get (mp_blocks m) (stem_name p) = Inr stem \<and>
        ResNeXt3DStemSinglePathway_forward ops stem (xs ! p) = Inr y \<and>
        ResNeXt3DStemMultiPathway_forward_step ops m x p () st = (Inr (), st(x \<mapsto> xs[p := y]))"
    then obtain stem y where
      stem: "dict_get (mp_blocks m) (stem_name p) = Inr stem" and
      y: "ResNeXt3DStemSinglePathway_forward ops stem (xs ! p) = Inr y" and
      step: "ResNeXt3DStemMultiPathway_forward_step ops m x p () st = (Inr (), st(x \<mapsto> xs[p := y]))"
      by blast
    let ?st1 = "st(x \<mapsto> xs[p := y])"
    from Cons.prems(1) step
    have loop: "for_loop ps (ResNeXt3DStemMultiPathway_forward_step ops m x) () ?st1 = (r, st')"
      by simp
    have "?st1 x = Some (xs[p := y])" by simp
    moreover from Cons.prems have "distinct ps" by simp
    moreover from Cons.prems have "\<forall>q \<in> set ps. q < length (xs[p := y])" by simp
    ultimately have IH:
      "(\<forall>a. a \<noteq> x \<longrightarrow> st' a = ?st1 a) \<and>
       (\<exists>ys. st' x = Some ys \<and> length ys = length (xs[p := y]) \<and>
          (\<forall>q. q \<notin> set ps \<longrightarrow> ys ! q = xs[p := y] ! q) \<and>
          ((\<exists>u. r = Inr u) \<longrightarrow>
             (\<forall>q \<in> set ps. \<exists>stem. dict_get (mp_blocks m) (stem_name q) = Inr stem \<and>
                ResNeXt3DStemSinglePathway_forward ops stem (xs[p := y] ! q) = Inr (ys ! q))))"
      by (rule Cons.IH[of ?st1 "xs[p := y]", OF loop])
    then obtain ys where ys: "st' x = Some ys" "length ys = length xs"
      "\<forall>q. q \<notin> set ps \<longrightarrow> ys ! q = xs[p := y] ! q"
      "(\<exists>u. r = Inr u) \<longrightarrow>
             (\<forall>q \<in> set ps. \<exists>stem. dict_get (mp_blocks m) (stem_name q) = Inr stem \<and>
                ResNeXt3DStemSinglePathway_forward ops stem (xs[p := y] ! q) = Inr (ys ! q))"
      by auto
    from Cons.prems have pn: "p \<notin> set ps" by simp
    with ys(3) p have yp: "ys ! p = y" by simp
    have others: "\<forall>a. a \<noteq> x \<longrightarrow> st' a = st a" using IH by simp
    have unchanged: "\<forall>q. q \<notin> set (p # ps) \<longrightarrow> ys ! q = xs ! q" using ys(3) by simp
    have outputs: "(\<exists>u. r = Inr u) \<longrightarrow>
             (\<forall>q \<in> set (p # ps). \<exists>stem. dict_get (mp_blocks m) (stem_name q) = Inr stem \<and>
                ResNeXt3DStemSinglePathway_forward ops stem (xs ! q) = Inr (ys ! q))"
    proof (intro impI ballI)
      fix q assume r: "\<exists>u. r = Inr u" and q: "q \<in> set (p # ps)"
      show "\<exists>stem. dict_get (mp_blocks m) (stem_name q) = Inr stem \<and>
                ResNeXt3DStemSinglePathway_forward ops stem (xs ! q) = Inr (ys ! q)"
      proof (cases "q = p")
        case True
        with stem y yp show ?thesis by simp
      next
        case False
        with q have "q \<in> set ps" by simp
        with ys(4) r obtain stem' where
          "dict_get (mp_blocks m) (stem_name q) = Inr stem'"
          "ResNeXt3DStemSinglePathway_forward ops stem' (xs[p := y] ! q) = Inr (ys ! q)"
          by blast
        with False show ?thesis by simp
      qed
    qed
    from others ys(1,2) unchanged outputs show ?thesis by blast
  qed
qed

lemma stem_loop_returns:
  assumes "st x = Some xs" and "distinct ps" and "\<forall>p \<in> set ps. p < length xs"
    and "\<forall>p \<in> set ps. \<exists>stem y. dict_get (mp_blocks m) (stem_name p) = Inr stem \<and>
           ResNeXt3DStemSinglePathway_forward ops stem (xs ! p) = Inr y"
  shows "\<exists>st'. for_loop ps (ResNeXt3DStemMultiPathway_forward_step ops m x) () st = (Inr (), st')"
  using assms
proof (induction ps arbitrary: st xs)
  case Nil
  then show ?case by simp
next
  case (Cons p ps)
  from Cons.prems have p: "p < length xs" by simp
  from Cons.prems obtain stem y where
    stem: "dict_get (mp_blocks m) (stem_name p) = Inr stem" and
    y: "ResNeXt3DStemSinglePathway_forward ops stem (xs ! p) = Inr y"
    by auto
  with Cons.prems(1) p
  have step: "ResNeXt3DStemMultiPathway_forward_step ops m x p () st = (Inr (), st(x \<mapsto> xs[p := y]))"
    by (simp add: ResNeXt3DStemMultiPathway_forward_step_def py_index_def)
  let ?st1 = "st(x \<mapsto> xs[p := y])"
  have 1: "?st1 x = Some (xs[p := y])" by simp
  from Cons.prems have 2: "distinct ps" by simp
  from Cons.prems have 3: "\<forall>q \<in> set ps. q < length (xs[p := y])" by simp
  have 4: "\<forall>q \<in> set ps. \<exists>stem y'. dict_get (mp_blocks m) (stem_name q) = Inr stem \<and>
           ResNeXt3DStemSinglePathway_forward ops stem (xs[p := y] ! q) = Inr y'"
  proof
    fix q assume q: "q \<in> set ps"
    with Cons.prems have "q \<noteq> p" by auto
    with q Cons.prems(4) show "\<exists>stem y'. dict_get (mp_blocks m) (stem_name q) = Inr stem \<and>
           ResNeXt3DStemSinglePathway_forward ops stem (xs[p := y] ! q) = Inr y'"
      by simp
  qed
  have "\<exists>st'. for_loop ps (ResNeXt3DStemMultiPathway_forward_step ops m x) () ?st1 = (Inr (), st')"
    using 1 2 3 4 by (rule Cons.IH[of ?st1 "xs[p := y]"])
  then obtain st' where
    "for_loop ps (ResNeXt3DStemMultiPathway_forward_step ops m x) () ?st1 = (Inr (), st')" ..
  then have "for_loop (p # ps) (ResNeXt3DStemMultiPathway_forward_step ops m x) () st = (Inr (), st')"
    by (simp only: for_loop.simps step prod.case sum.case)
  then show ?case by blast
qed

text \<open>
  C10. When \<open>ResNeXt3DStemMultiPathway.forward\<close> returns, it returns the address it was
  given; the list at that address has kept its length and holds at every position \<open>p\<close>
  the result of the stem of pathway \<open>p\<close> on the entry that was there; no other object of
  the store has changed. So whoever holds the address of the input list sees the stem
  outputs. And the call does return whenever every pathway has a stem that accepts its
  entry.
\<close>

theorem stem_forward_overwrites_its_argument:
  "(st x = Some xs \<and> ResNeXt3DStemMultiPathway_forward ops m x st = (Inr r, st') \<longrightarrow>
      r = x \<and>
      (\<exists>ys. st' x = Some ys \<and> length ys = length xs \<and>
         (\<forall>p < length xs. \<exists>stem. dict_get (mp_blocks m) (stem_name p) = Inr stem \<and>
            ResNeXt3DStemSinglePathway_forward ops stem (xs ! p) = Inr (ys ! p))) \<and>
      (\<forall>a. a \<noteq> x \<longrightarrow> st' a = st a))
   \<and> (st x = Some xs \<and>
       (\<forall>p < length xs. \<exists>stem y. dict_get (mp_blocks m) (stem_name p) = Inr stem \<and>
            ResNeXt3DStemSinglePathway_forward ops stem (xs ! p) = Inr y) \<longrightarrow>
       (\<exists>st''. ResNeXt3DStemMultiPathway_forward ops m x st = (Inr x, st'')))"
proof (intro conjI impI)
  assume a: "st x = Some xs \<and> ResNeXt3DStemMultiPathway_forward ops m x st = (Inr r, st')"
  let ?loop = "for_loop [0..<length xs] (ResNeXt3DStemMultiPathway_forward_step ops m x) () st"
  obtain r' st1 where loop: "?loop = (r', st1)" by (cases ?loop)
  with a have res: "r' = Inr () \<and> r = x \<and> st1 = st'"
    by (cases r') (auto simp: ResNeXt3DStemMultiPathway_forward_def)
  from a have x: "st x = Some xs" by simp
  from stem_loop[where st = st and xs = xs, OF loop x] res
  have *: "(\<forall>a. a \<noteq> x \<longrightarrow> st' a = st a) \<and>
         (\<exists>ys. st' x = Some ys \<and> length ys = length xs \<and>
            (\<forall>p \<in> set [0..<length xs]. \<exists>stem. dict_get (mp_blocks m) (stem_name p) = Inr stem \<and>
                  ResNeXt3DStemSinglePathway_forward ops stem (xs ! p) = Inr (ys ! p)))"
    by auto
  from res show "r = x" by simp
  from * show "\<forall>a. a \<noteq> x \<longrightarrow> st' a = st a" by simp
  from * show "\<exists>ys. st' x = Some ys \<and> length ys = length xs \<and>
         (\<forall>p < length xs. \<exists>stem. dict_get (mp_blocks m) (stem_name p) = Inr stem \<and>
            ResNeXt3DStemSinglePathway_forward ops stem (xs ! p) = Inr (ys ! p))"
    by auto
next
  assume a: "st x = Some xs \<and>
       (\<forall>p < length xs. \<exists>stem y. dict_get (mp_blocks m) (stem_name p) = Inr stem \<and>
            ResNeXt3DStemSinglePathway_forward ops stem (xs ! p) = Inr y)"
  then have "\<exists>st'. for_loop [0..<length xs] (ResNeXt3DStemMultiPathway_forward_step ops m x) () st
               = (Inr (), st')"
    by (intro stem_loop_returns[where xs = xs and st = st]) auto
  with a show "\<exists>st''. ResNeXt3DStemMultiPathway_forward ops m x st = (Inr x, st'')"
    by (auto simp: ResNeXt3DStemMultiPathway_forward_def)
qed

theorem stem_forward_overwrites_its_argument_witness:
  "\<exists>m al st'.
     ResNeXt3DStemMultiPathway_init example_stem_args [] = (Inr m, al) \<and>
     ResNeXt3DStemMultiPathway_forward shape_ops m 0 (Map.empty(0 \<mapsto> [[1, 3, 8, 224, 224]])) =
       (Inr 0, st') \<and>
     st' 0 = Some [[1, 32, 8, 56, 56]]"
proof -
  let ?S = "ResNeXt3DStemSinglePathway_init 3 32 (3, 5, 5) (1, 2, 2) (1, 2, 2) True True
              default_bn_eps default_bn_mmt"
  let ?st = "Map.empty(0 \<mapsto> [[1, 3, 8, 224, 224 :: int]])"
  obtain m al where init: "ResNeXt3DStemMultiPathway_init example_stem_args [] = (Inr m, al)"
    and blocks: "mp_blocks m = [(''stem-path0'', ?S)]"
    by (simp add: example_stem_args_def ResNeXt3DStemMultiPathway_init_def
          ResNeXt3DStemMultiPathway_stem_def stem_name_def str_of_nat_0 upt_conv_Cons)
  have get: "dict_get (mp_blocks m) (stem_name 0) = Inr ?S"
    by (simp add: blocks dict_get_def stem_name_def str_of_nat_0)
  have out: "ResNeXt3DStemSinglePathway_forward shape_ops ?S [1, 3, 8, 224, 224] =
               Inr [1, 32, 8, 56, 56]"
    by (simp add: ResNeXt3DStemSinglePathway_forward_def ResNeXt3DStemSinglePathway_init_def
          nn_Conv3d_def nn_BatchNorm3d_def nn_ReLU_def shape_defs)
  have x: "?st 0 = Some [[1, 3, 8, 224, 224]]" by simp
  have accepts: "\<forall>p < length [[1, 3, 8, 224, 224 :: int]].
       \<exists>stem y. dict_get (mp_blocks m) (stem_name p) = Inr stem \<and>
         ResNeXt3DStemSinglePathway_forward shape_ops stem ([[1, 3, 8, 224, 224]] ! p) = Inr y"
    using get out by simp
  have "\<exists>st''. ResNeXt3DStemMultiPathway_forward shape_ops m 0 ?st = (Inr 0, st'')"
    by (rule stem_forward_overwrites_its_argument
               [where st = ?st and x = 0 and xs = "[[1, 3, 8, 224, 224]]" and ops = shape_ops
                  and m = m,
                THEN conjunct2, THEN mp, OF conjI, OF x accepts])
  then obtain st' where
    fw: "ResNeXt3DStemMultiPathway_forward shape_ops m 0 ?st = (Inr 0, st')" ..
  have "0 = (0::nat) \<and>
      (\<exists>ys. st' 0 = Some ys \<and> length ys = length [[1, 3, 8, 224, 224 :: int]] \<and>
         (\<forall>p < length [[1, 3, 8, 224, 224 :: int]].
            \<exists>stem. dict_get (mp_blocks m) (stem_name p) = Inr stem \<and>
              ResNeXt3DStemSinglePathway_forward shape_ops stem ([[1, 3, 8, 224, 224]] ! p) =
                Inr (ys ! p))) \<and>
      (\<forall>a. a \<noteq> 0 \<longrightarrow> st' a = ?st a)"
    by (rule stem_forward_overwrites_its_argument
               [where st = ?st and x = 0 and xs = "[[1, 3, 8, 224, 224]]" and ops = shape_ops
                  and m = m and r = 0 and st' = st',
                THEN conjunct1, THEN mp, OF conjI, OF x fw])
  then obtain ys where ys: "st' 0 = Some ys" "length ys = 1"
    and "\<exists>stem. dict_get (mp_blocks m) (stem_name 0) = Inr stem \<and>
           ResNeXt3DStemSinglePathway_forward shape_ops stem [1, 3, 8, 224, 224] = Inr (ys ! 0)"
    by auto
  with get out have "ys ! 0 = [1, 32, 8, 56, 56]" by simp
  with ys(2) have "ys = [[1, 32, 8, 56, 56]]"
    by (cases ys) simp_all
  with init fw ys(1) show ?thesis by blast
qed

section \<open>The batch axis through the network\<close>

lemma keeps_batchD: "keeps_batch f \<Longrightarrow> f x = Inr y \<Longrightarrow> batch5 n x \<Longrightarrow> batch5 n y"
  unfolding keeps_batch_def by blast

lemma keeps_batch_bindE:
  assumes "keeps_batch f" and "keeps_batch g"
  shows "keeps_batch (\<lambda>x. bindE (f x) g)"
  unfolding keeps_batch_def
proof (intro allI impI)
  fix n x y
  assume "bindE (f x) g = Inr y" and x: "batch5 n x"
  then obtain v where v: "f x = Inr v" "g v = Inr y" by (auto simp: bindE_eq_Inr)
  from keeps_batchD[OF assms(1) v(1) x] have "batch5 n v" .
  with assms(2) v(2) show "batch5 n y" by (rule keeps_batchD)
qed

lemma keeps_batch_Inr: "keeps_batch Inr"
  by (simp add: keeps_batch_def)

lemma window_out_pos: "window_ok n k s p \<Longrightarrow> 0 < window_out n k s p"
  by (simp add: window_ok_def window_out_def pos_imp_zdiv_nonneg_iff add_pos_nonneg)

lemma shape_window_Inr:
  assumes "shape_window k s p ci co x = Inr y"
  shows "\<exists>n c d h w d' h' w'. x = [n, c, d, h, w] \<and> y = [n, co, d', h', w']
           \<and> 0 < d' \<and> 0 < h' \<and> 0 < w'"
  using assms
  by (induction k s p ci co x rule: shape_window.induct)
     (auto split: if_splits simp: window_out_pos)

lemma keeps_batch_window: "keeps_batch (shape_window k s p ci co)"
  unfolding keeps_batch_def batch5_def by (auto dest!: shape_window_Inr)

lemma keeps_batch_conv3d: "keeps_batch (t_conv3d shape_ops m)"
  by (simp add: shape_ops_def shape_conv3d_def[abs_def] keeps_batch_window)

lemma keeps_batch_batch_norm: "keeps_batch (t_batch_norm shape_ops m)"
  unfolding keeps_batch_def batch5_def by (auto simp: shape_ops_def split: if_splits)

lemma keeps_batch_relu: "keeps_batch (t_relu shape_ops m)"
  by (simp add: shape_ops_def keeps_batch_def)

lemma keeps_batch_dropout: "keeps_batch (t_dropout shape_ops m)"
  by (simp add: shape_ops_def keeps_batch_def)

lemma keeps_batch_max_pool3d: "keeps_batch (t_max_pool3d shape_ops m)"
  unfolding keeps_batch_def batch5_def
  by (auto simp: shape_ops_def dest!: shape_window_Inr)

lemma shape_add_batch:
  assumes "shape_add x y = Inr z" and "batch5 n x" and "batch5 n y"
  shows "batch5 n z"
  using assms unfolding batch5_def shape_add_def
  by (auto split: option.splits if_splits)

lemma keeps_batch_or_identity:
  "(\<And>l. keeps_batch (f l)) \<Longrightarrow> keeps_batch (forward_or_identity f m)"
  by (cases m) (simp_all add: forward_or_identity_def[abs_def] keeps_batch_Inr)

lemmas keeps_batch_layers =
  keeps_batch_conv3d keeps_batch_batch_norm keeps_batch_relu keeps_batch_max_pool3d
  keeps_batch_dropout keeps_batch_Inr

lemma keeps_batch_PostactivatedBottleneckTransformation:
  "keeps_batch (PostactivatedBottleneckTransformation_forward shape_ops m)"
  unfolding PostactivatedBottleneckTransformation_forward_def[abs_def]
  by (intro keeps_batch_bindE keeps_batch_layers)

lemma keeps_batch_PreactivatedBottleneckTransformation:
  "keeps_batch (PreactivatedBottleneckTransformation_forward shape_ops m)"
  unfolding PreactivatedBottleneckTransformation_forward_def[abs_def]
  by (intro keeps_batch_bindE keeps_batch_or_identity keeps_batch_layers)

lemma keeps_batch_PostactivatedShortcutTransformation:
  "keeps_batch (PostactivatedShortcutTransformation_forward shape_ops m)"
  unfolding PostactivatedShortcutTransformation_forward_def[abs_def]
  by (intro keeps_batch_bindE keeps_batch_layers)

lemma keeps_batch_PreactivatedShortcutTransformation:
  "keeps_batch (PreactivatedShortcutTransformation_forward shape_ops m)"
proof -
  have "keeps_batch (\<lambda>x. case (prsc_branch1_bn m, prsc_branch1_relu m) of
              (Some bn, Some relu) \<Rightarrow> bindE (t_batch_norm shape_ops bn x) (t_relu shape_ops relu)
            | _ \<Rightarrow> Inr x)"
    by (cases "prsc_branch1_bn m"; cases "prsc_branch1_relu m")
       (simp_all add: keeps_batch_Inr keeps_batch_bindE keeps_batch_layers)
  then show ?thesis
    unfolding PreactivatedShortcutTransformation_forward_def[abs_def]
    by (intro keeps_batch_bindE keeps_batch_layers)
qed

lemma keeps_batch_skip: "keeps_batch (skip_forward shape_ops m)"
proof (cases m)
  case SkipIdentity
  have "skip_forward shape_ops SkipIdentity = Inr" by (rule ext) simp
  with SkipIdentity show ?thesis by (simp add: keeps_batch_Inr)
next
  case (SkipPostactivated s)
  have "skip_forward shape_ops (SkipPostactivated s) =
          PostactivatedShortcutTransformation_forward shape_ops s" by (rule ext) simp
  with SkipPostactivated show ?thesis
    by (simp add: keeps_batch_PostactivatedShortcutTransformation)
next
  case (SkipPreactivated s)
  have "skip_forward shape_ops (SkipPreactivated s) =
          PreactivatedShortcutTransformation_forward shape_ops s" by (rule ext) simp
  with SkipPreactivated show ?thesis
    by (simp add: keeps_batch_PreactivatedShortcutTransformation)
qed

lemma keeps_batch_residual: "keeps_batch (residual_forward shape_ops m)"
proof (cases m)
  case (ResidualPostactivated r)
  have "residual_forward shape_ops (ResidualPostactivated r) =
          PostactivatedBottleneckTransformation_forward shape_ops r" by (rule ext) simp
  with ResidualPostactivated show ?thesis
    by (simp add: keeps_batch_PostactivatedBottleneckTransformation)
next
  case (ResidualPreactivated r)
  have "residual_forward shape_ops (ResidualPreactivated r) =
          PreactivatedBottleneckTransformation_forward shape_ops r" by (rule ext) simp
  with ResidualPreactivated show ?thesis
    by (simp add: keeps_batch_PreactivatedBottleneckTransformation)
qed

lemma keeps_batch_ResBlock: "keeps_batch (ResBlock_forward shape_ops blk)"
  unfolding keeps_batch_def
proof (intro allI impI)
  fix n x y
  assume fw: "ResBlock_forward shape_ops blk x = Inr y" and x: "batch5 n x"
  from fw obtain skip_out residual_out z where
    s: "skip_forward shape_ops (rb_skip blk) x = Inr skip_out" and
    r: "residual_forward shape_ops (rb_residual blk) x = Inr residual_out" and
    a: "t_add shape_ops skip_out residual_out = Inr z" and
    y: "t_relu shape_ops (rb_relu blk) z = Inr y"
    unfolding ResBlock_forward_def bindE_eq_Inr by blast
  from a have "shape_add skip_out residual_out = Inr z" by (simp add: shape_ops_def)
  moreover from keeps_batch_skip s x have "batch5 n skip_out" by (rule keeps_batchD)
  moreover from keeps_batch_residual r x have "batch5 n residual_out" by (rule keeps_batchD)
  ultimately have "batch5 n z" by (rule shape_add_batch)
  with keeps_batch_relu y show "batch5 n y" by (rule keeps_batchD)
qed

lemma keeps_batch_sequential_item: "keeps_batch (sequential_item_forward shape_ops m)"
proof (cases m)
  case (SeqResBlock b)
  have "sequential_item_forward shape_ops (SeqResBlock b) = ResBlock_forward shape_ops b"
    by (rule ext) simp
  with SeqResBlock show ?thesis by (simp add: keeps_batch_ResBlock)
next
  case (SeqBatchNorm3d b)
  have "sequential_item_forward shape_ops (SeqBatchNorm3d b) = t_batch_norm shape_ops b"
    by (rule ext) simp
  with SeqBatchNorm3d show ?thesis by (simp add: keeps_batch_batch_norm)
next
  case (SeqReLU r)
  have "sequential_item_forward shape_ops (SeqReLU r) = t_relu shape_ops r"
    by (rule ext) simp
  with SeqReLU show ?thesis by (simp add: keeps_batch_relu)
qed

lemma Sequential_forward_batch:
  "Sequential_forward shape_ops ms x = Inr y \<Longrightarrow> batch5 n x \<Longrightarrow> batch5 n y"
proof (induction ms arbitrary: x)
  case Nil
  then show ?case by simp
next
  case (Cons m ms)
  from Cons.prems(1) obtain v where
    v: "sequential_item_forward shape_ops m x = Inr v" and
    rest: "Sequential_forward shape_ops ms v = Inr y"
    by (auto split: sum.splits)
  from keeps_batch_sequential_item v Cons.prems(2) have "batch5 n v" by (rule keeps_batchD)
  with rest show ?case by (rule Cons.IH)
qed

lemma ResStage_forward_loop_batch:
  assumes "ResStage_forward_loop shape_ops st inputs ps acc = Inr outs"
    and "\<forall>x \<in> set inputs. batch5 n x" and "\<forall>x \<in> set acc. batch5 n x"
  shows "\<forall>x \<in> set outs. batch5 n x"
  using assms
proof (induction ps arbitrary: acc)
  case Nil
  then show ?case by simp
next
  case (Cons p ps)
  from Cons.prems(1) obtain x pathway_module y where
    x: "py_index inputs p = Inr x" and
    y: "Sequential_forward shape_ops pathway_module x = Inr y" and
    rest: "ResStage_forward_loop shape_ops st inputs ps (acc @ [y]) = Inr outs"
    by (auto split: sum.splits)
  from x Cons.prems(2) have "batch5 n x" by (auto simp: py_index_def split: if_splits)
  with y have "batch5 n y" by (rule Sequential_forward_batch)
  with Cons.prems(3) have "\<forall>x \<in> set (acc @ [y]). batch5 n x" by simp
  with rest Cons.prems(2) show ?case by (rule Cons.IH)
qed

lemma ResNeXt3D_forward_stages_batch:
  assumes "ResNeXt3D_forward_stages shape_ops stages out = Inr out'"
    and "\<forall>x \<in> set out. batch5 n x"
  shows "\<forall>x \<in> set out'. batch5 n x"
  using assms
proof (induction stages arbitrary: out)
  case Nil
  then show ?case by simp
next
  case (Cons stage stages)
  from Cons.prems(1) obtain mid where
    mid: "ResStage_forward shape_ops stage out = Inr mid" and
    rest: "ResNeXt3D_forward_stages shape_ops stages mid = Inr out'"
    by (auto split: sum.splits)
  have "\<forall>x \<in> set []. batch5 n x" by simp
  with mid[unfolded ResStage_forward_def] Cons.prems(2) have "\<forall>x \<in> set mid. batch5 n x"
    by (rule ResStage_forward_loop_batch)
  with rest show ?case by (rule Cons.IH)
qed

lemma keeps_batch_ResNeXt3DStemSinglePathway:
  "keeps_batch (ResNeXt3DStemSinglePathway_forward shape_ops m)"
proof -
  have "keeps_batch (\<lambda>x. if sp_maxpool m
     then (case sp_pool_layer m of
             None \<Rightarrow> Inl (AttributeError ''pool_layer'')
           | Some pool_layer \<Rightarrow> t_max_pool3d shape_ops pool_layer x)
     else Inr x)"
  proof (cases "sp_maxpool m")
    case False
    then show ?thesis by (simp add: keeps_batch_Inr)
  next
    case True
    show ?thesis
    proof (cases "sp_pool_layer m")
      case None
      with True show ?thesis by (simp add: keeps_batch_def)
    next
      case (Some pool_layer)
      with True show ?thesis by (simp add: keeps_batch_max_pool3d)
    qed
  qed
  then show ?thesis
    unfolding ResNeXt3DStemSinglePathway_forward_def[abs_def]
    by (intro keeps_batch_bindE keeps_batch_layers)
qed

lemma stem_forward_batch:
  assumes fw: "ResNeXt3DStem_forward shape_ops stem a (Map.empty(a \<mapsto> [x])) = (Inr r, st')"
    and x: "batch5 n x" and out: "st' r = Some out"
  shows "\<forall>y \<in> set out. batch5 n y"
proof -
  let ?st = "Map.empty(a \<mapsto> [x])"
  let ?loop = "for_loop [0..<length [x]]
                 (ResNeXt3DStemMultiPathway_forward_step shape_ops (stem_stem stem) a) () ?st"
  have a: "?st a = Some [x]" by simp
  obtain r' st1 where loop: "?loop = (r', st1)" by (cases ?loop)
  with fw have res: "r' = Inr () \<and> r = a \<and> st1 = st'"
    by (cases r')
       (auto simp: ResNeXt3DStem_forward_def ResNeXt3DStemMultiPathway_forward_def)
  have "distinct [0..<length [x]]" and "\<forall>p \<in> set [0..<length [x]]. p < length [x]" by simp_all
  with stem_loop[where st = ?st and xs = "[x]", OF loop a] res
  obtain ys where ys: "st' a = Some ys" "length ys = length [x]"
    "\<forall>p \<in> set [0..<length [x]]. \<exists>s. dict_get (mp_blocks (stem_stem stem)) (stem_name p) = Inr s \<and>
        ResNeXt3DStemSinglePathway_forward shape_ops s ([x] ! p) = Inr (ys ! p)"
    by auto
  then obtain s where "ResNeXt3DStemSinglePathway_forward shape_ops s x = Inr (ys ! 0)"
    by auto
  with keeps_batch_ResNeXt3DStemSinglePathway have "batch5 n (ys ! 0)"
    using x by (rule keeps_batchD)
  moreover from ys(2) have "ys = [ys ! 0]" by (cases ys) simp_all
  ultimately have "\<forall>y \<in> set ys. batch5 n y" by (metis list.set_cases list.inject empty_iff empty_set set_ConsD)
  with ys(1) out res show ?thesis by simp
qed

lemma fcl_forward_shape:
  assumes "FullyConvolutionalLinear_forward shape_ops
             ((FullyConvolutionalLinear_init dim_in num_classes)\<lparr>fcl_training := mode\<rparr>)
             [n, c, t, h, w] = Inr out"
  shows "out = (if mode then [n, num_classes * (t * h * w)] else [n, num_classes])"
  using assms
  by (auto simp: FullyConvolutionalLinear_forward_def FullyConvolutionalLinear_init_def
        nn_Linear_def shape_defs ac_simps split: if_splits)

lemma head_forward_shape:
  assumes fw: "FullyConvolutionalLinearHead_forward shape_ops
             ((FullyConvolutionalLinearHead_init num_classes in_plane pool_size use_dropout ratio)
                \<lparr>head_head_fcl :=
                   (FullyConvolutionalLinear_init in_plane num_classes)\<lparr>fcl_training := mode\<rparr>\<rparr>)
             x = Inr out"
    and x: "batch5 n x"
  shows "(mode \<longrightarrow> (\<exists>t h w. 0 < t \<and> 0 < h \<and> 0 < w \<and> out = [n, num_classes * (t * h * w)]))
       \<and> (\<not> mode \<longrightarrow> out = [n, num_classes])
       \<and> (pool_size = None \<longrightarrow> out = [n, num_classes])"
proof -
  let ?head = "FullyConvolutionalLinearHead_init num_classes in_plane pool_size use_dropout ratio"
  from fw obtain pooled dropped where
    pool: "final_avgpool_forward shape_ops (head_final_avgpool ?head) x = Inr pooled" and
    drop: "(case head_dropout ?head of Some dropout \<Rightarrow> t_dropout shape_ops dropout pooled
            | None \<Rightarrow> Inr pooled) = Inr dropped" and
    fcl: "FullyConvolutionalLinear_forward shape_ops
            ((FullyConvolutionalLinear_init in_plane num_classes)\<lparr>fcl_training := mode\<rparr>)
            dropped = Inr out"
    by (auto simp: FullyConvolutionalLinearHead_forward_def bindE_eq_Inr)
  from drop have same: "dropped = pooled"
    by (auto simp: shape_ops_def split: option.splits)
  from x obtain c d h w where xs: "x = [n, c, d, h, w]" by (auto simp: batch5_def)
  have "\<exists>c' t' h' w'. pooled = [n, c', t', h', w'] \<and> 0 < t' \<and> 0 < h' \<and> 0 < w'
          \<and> (pool_size = None \<longrightarrow> t' = 1 \<and> h' = 1 \<and> w' = 1)"
  proof (cases pool_size)
    case None
    with pool xs show ?thesis
      by (auto simp: FullyConvolutionalLinearHead_init_def shape_ops_def)
  next
    case (Some ks)
    with pool xs show ?thesis
      by (auto simp: FullyConvolutionalLinearHead_init_def shape_ops_def
            dest!: shape_window_Inr)
  qed
  then obtain c' t' h' w' where p: "pooled = [n, c', t', h', w']" "0 < t'" "0 < h'" "0 < w'"
    "pool_size = None \<longrightarrow> t' = 1 \<and> h' = 1 \<and> w' = 1"
    by blast
  from fcl[unfolded same p(1)]
  have out: "out = (if mode then [n, num_classes * (t' * h' * w')] else [n, num_classes])"
    by (rule fcl_forward_shape)
  show ?thesis
  proof (intro conjI impI)
    assume mode
    with out p show "\<exists>t h w. 0 < t \<and> 0 < h \<and> 0 < w \<and> out = [n, num_classes * (t * h * w)]"
      by auto
  next
    assume "\<not> mode"
    with out show "out = [n, num_classes]" by simp
  next
    assume "pool_size = None"
    with out p show "out = [n, num_classes]" by simp
  qed
qed

section \<open>The shape of the model's output\<close>

lemma preact_forward_values:
  "\<exists>m al. resnext3d_preact_i3d50 [] = (Inr m, al)
     \<and> ResNeXt3D_forward shape_ops (ResNeXt3D_train True m) [1, 3, 8, 224, 224] = Inr [1, 400]
     \<and> ResNeXt3D_forward shape_ops (ResNeXt3D_train False m) [1, 3, 16, 224, 224] =
         Inr [1, 400]"
  by (simp add: resnext3d_preact_i3d50_def resnext3d_preact_i3d50_args_def model_defs stem_defs
        stage_defs block_defs forward_defs shape_defs ResNeXt3D_train_def Let_def)

text \<open>
  On inputs of the size it was configured for, the pre-activated reference configuration
  returns the shape \<open>(n, 400)\<close> for every batch size \<open>n\<close>, in either mode.
\<close>

lemma preact_forward_any_batch:
  "\<exists>m al. resnext3d_preact_i3d50 [] = (Inr m, al)
     \<and> (\<forall>n. ResNeXt3D_forward shape_ops m [n, 3, 8, 224, 224] = Inr [n, 400])
     \<and> (\<forall>n. ResNeXt3D_forward shape_ops (ResNeXt3D_train False m) [n, 3, 8, 224, 224] =
               Inr [n, 400])"
  by (simp add: resnext3d_preact_i3d50_def resnext3d_preact_i3d50_args_def model_defs stem_defs
        stage_defs block_defs forward_defs shape_defs ResNeXt3D_train_def Let_def)

text \<open>
  C1 as stated fails. The pre-activated reference configuration, as constructed (in
  training mode), maps an input of shape \<open>(1, 3, 16, 224, 224)\<close> to an output of shape
  \<open>(1, 2000)\<close>: the head's pooling window \<open>(4, 7, 7)\<close> leaves five temporal positions,
  and the projection flattens the logits of all of them.
\<close>

theorem forward_output_shape_counterexample:
  "\<exists>m al. resnext3d_preact_i3d50 [] = (Inr m, al)
     \<and> ResNeXt3D_forward shape_ops m [1, 3, 16, 224, 224] = Inr [1, 2000]
     \<and> ResNeXt3D_forward shape_ops m [1, 3, 16, 224, 224] \<noteq>
         Inr [1, hp_num_classes resnext3d_preact_i3d50_args]"
  by (simp add: resnext3d_preact_i3d50_def resnext3d_preact_i3d50_args_def model_defs stem_defs
        stage_defs block_defs forward_defs shape_defs Let_def)

text \<open>
  C1, amended. For every model the constructor builds and every five-dimensional input on
  which the forward pass returns: in inference mode the output has the shape
  \<open>(batch, num_classes)\<close>; in training mode it has the shape
  \<open>(batch, num_classes * positions)\<close>, where \<open>positions\<close> is the product of three
  positive extents, those the pooling of the head leaves; and with adaptive pooling (no pool
  size given) it is \<open>(batch, num_classes)\<close> in either mode.
\<close>

theorem forward_output_shape:
  assumes init: "ResNeXt3D_init hp al = (Inr m, al')"
    and fw: "ResNeXt3D_forward shape_ops (ResNeXt3D_train mode m) [n, c, t, h, w] = Inr out"
  shows "(mode \<longrightarrow>
            (\<exists>t' h' w'. 0 < t' \<and> 0 < h' \<and> 0 < w' \<and>
               out = [n, hp_num_classes hp * (t' * h' * w')]))
       \<and> (\<not> mode \<longrightarrow> out = [n, hp_num_classes hp])
       \<and> (hp_head_pool_size hp = None \<longrightarrow> out = [n, hp_num_classes hp])"
proof -
  let ?x = "[n, c, t, h, w]"
  let ?head = "FullyConvolutionalLinearHead_init (hp_num_classes hp) 2048
                 (hp_head_pool_size hp) (Some True) (1 / 2)"
  have head: "m_head (ResNeXt3D_train mode m) =
      Some (?head\<lparr>head_head_fcl :=
                    (FullyConvolutionalLinear_init 2048 (hp_num_classes hp))
                      \<lparr>fcl_training := mode\<rparr>\<rparr>)"
    by (simp add: ResNeXt3D_train_def head_of_model[OF init]
          FullyConvolutionalLinearHead_init_def)
  have parts: "m_stem (ResNeXt3D_train mode m) = m_stem m"
       "m_stages (ResNeXt3D_train mode m) = m_stages m"
    by (simp_all add: ResNeXt3D_train_def)
  obtain r st' where
    stem: "ResNeXt3DStem_forward shape_ops (m_stem m) 0 (Map.empty(0 \<mapsto> [?x])) = (r, st')"
    by (cases "ResNeXt3DStem_forward shape_ops (m_stem m) 0 (Map.empty(0 \<mapsto> [?x]))")
  from fw stem obtain out_ref out0 outs out_0 where
    r: "r = Inr out_ref" and
    out0: "st' out_ref = Some out0" and
    stages: "ResNeXt3D_forward_stages shape_ops (m_stages m) out0 = Inr outs" and
    idx: "py_index outs 0 = Inr out_0" and
    hd: "FullyConvolutionalLinearHead_forward shape_ops
           (?head\<lparr>head_head_fcl :=
                    (FullyConvolutionalLinear_init 2048 (hp_num_classes hp))
                      \<lparr>fcl_training := mode\<rparr>\<rparr>) out_0 = Inr out"
    by (auto simp: ResNeXt3D_forward_def parts head bindE_eq_Inr
          split: sum.splits option.splits)
  have x: "batch5 n ?x" by (simp add: batch5_def)
  from stem[unfolded r] x out0 have "\<forall>y \<in> set out0. batch5 n y" by (rule stem_forward_batch)
  with stages have "\<forall>y \<in> set outs. batch5 n y" by (rule ResNeXt3D_forward_stages_batch)
  with idx have "batch5 n out_0" by (auto simp: py_index_def split: if_splits)
  with hd show ?thesis by (rule head_forward_shape)
qed

theorem forward_output_shape_witness:
  "\<exists>m al. resnext3d_preact_i3d50 [] = (Inr m, al)
     \<and> ResNeXt3D_forward shape_ops (ResNeXt3D_train True m) [1, 3, 8, 224, 224] = Inr [1, 400]
     \<and> (\<exists>t' h' w'. 0 < t' \<and> 0 < h' \<and> 0 < w' \<and>
           [1, 400] = [1, hp_num_classes resnext3d_preact_i3d50_args * (t' * h' * w')])
     \<and> ResNeXt3D_forward shape_ops (ResNeXt3D_train False m) [1, 3, 16, 224, 224] =
         Inr [1, 400]
     \<and> [1, 400] = [1, hp_num_classes resnext3d_preact_i3d50_args]"
proof -
  obtain m al where build: "resnext3d_preact_i3d50 [] = (Inr m, al)"
    and training:
      "ResNeXt3D_forward shape_ops (ResNeXt3D_train True m) [1, 3, 8, 224, 224] = Inr [1, 400]"
    and inference:
      "ResNeXt3D_forward shape_ops (ResNeXt3D_train False m) [1, 3, 16, 224, 224] =
         Inr [1, 400]"
    using preact_forward_values by blast
  from build have init: "ResNeXt3D_init resnext3d_preact_i3d50_args [] = (Inr m, al)"
    by (simp add: resnext3d_preact_i3d50_def)
  from forward_output_shape[OF init training]
  have "\<exists>t' h' w'. 0 < t' \<and> 0 < h' \<and> 0 < w' \<and>
          [1, 400] = [1, hp_num_classes resnext3d_preact_i3d50_args * (t' * h' * w')]"
    by simp
  moreover from forward_output_shape[OF init inference]
  have "[1, 400] = [1, hp_num_classes resnext3d_preact_i3d50_args]"
    by simp
  ultimately show ?thesis using build training inference by blast
qed

end
